theory Spec2Isabelle
  imports Main
begin

section \<open>Go strings\<close>

text \<open>
  A Go \<^verbatim>\<open>string\<close> is a sequence of bytes; \<^typ>\<open>string\<close> (a list of 8-bit characters)
  is used for it, and \<^verbatim>\<open>len\<close> is \<^const>\<open>length\<close>. Go's \<^verbatim>\<open>int\<close> is \<^typ>\<open>int\<close>
  (no index in this program comes near 64 bits). A failed run-time check
  (\<^verbatim>\<open>slice bounds out of range\<close>) is a value of type \<open>panic\<close>.
\<close>

datatype panic = SliceBoundsOutOfRange

fun HasPrefix :: "string \<Rightarrow> string \<Rightarrow> bool" where
  "HasPrefix s [] = True"
| "HasPrefix [] (p # ps) = False"
| "HasPrefix (x # xs) (p # ps) = (x = p \<and> HasPrefix xs ps)"

text \<open>\<^verbatim>\<open>strings.Index(s, sep)\<close>: the offset of the first occurrence, or -1.\<close>

fun IndexFrom :: "string \<Rightarrow> string \<Rightarrow> int \<Rightarrow> int" where
  "IndexFrom [] sep i = (if sep = [] then i else -1)"
| "IndexFrom (x # xs) sep i = (if HasPrefix (x # xs) sep then i else IndexFrom xs sep (i + 1))"

definition Index :: "string \<Rightarrow> string \<Rightarrow> int" where
  "Index s sep = IndexFrom s sep 0"

definition Contains :: "string \<Rightarrow> string \<Rightarrow> bool" where
  "Contains s sub = (0 \<le> Index s sub)"

text \<open>
  \<^verbatim>\<open>s[i:]\<close> and \<^verbatim>\<open>s[i:j]\<close>: Go panics unless \<open>0 \<le> i \<le> j \<le> len(s)\<close>.
\<close>

definition sliceFrom :: "string \<Rightarrow> int \<Rightarrow> panic + string" where
  "sliceFrom s i =
     (if 0 \<le> i \<and> i \<le> int (length s) then Inr (drop (nat i) s) else Inl SliceBoundsOutOfRange)"

definition slice :: "string \<Rightarrow> int \<Rightarrow> int \<Rightarrow> panic + string" where
  "slice s i j =
     (if 0 \<le> i \<and> i \<le> j \<and> j \<le> int (length s)
      then Inr (take (nat j - nat i) (drop (nat i) s))
      else Inl SliceBoundsOutOfRange)"

text \<open>\<^verbatim>\<open>strings.Trim(s, cutset)\<close> for a cutset of ASCII bytes.\<close>

definition Trim :: "string \<Rightarrow> string \<Rightarrow> string" where
  "Trim s cutset =
     rev (dropWhile (\<lambda>c. c \<in> set cutset) (rev (dropWhile (\<lambda>c. c \<in> set cutset) s)))"

text \<open>
  \<^verbatim>\<open>strings.TrimSpace\<close>, for the ASCII white space (tab, line feed, vertical tab, form
  feed, carriage return, space). The Unicode spaces outside ASCII that Go also strips are
  left in place here.
\<close>

definition asciiSpace :: "string" where
  "asciiSpace = [CHR 0x09, CHR 0x0A, CHR 0x0B, CHR 0x0C, CHR 0x0D, CHR '' '']"

definition TrimSpace :: "string \<Rightarrow> string" where
  "TrimSpace s = Trim s asciiSpace"

subsection \<open>\<^verbatim>\<open>strings.ToLower\<close>\<close>

text \<open>
  \<^verbatim>\<open>strings.ToLower\<close> maps the letters \<^verbatim>\<open>A\<close>..\<^verbatim>\<open>Z\<close> byte by byte when every byte of
  the string is ASCII. Otherwise it is \<^verbatim>\<open>strings.Map(unicode.ToLower, s)\<close>: the string
  is decoded rune by rune as UTF-8 (a byte that starts no valid encoding is the rune
  \<^verbatim>\<open>U+FFFD\<close> of width 1), each rune is mapped, and the result is encoded again. The
  length in bytes of the result can differ from the length of the argument.

  The case table \<^verbatim>\<open>unicode.ToLower\<close> belongs to Go's standard library; it is the
  parameter \<open>lc\<close> of every function below that lowers a string.
\<close>

definition byte :: "char \<Rightarrow> nat" where
  "byte c = of_char c"

definition RuneError :: nat where
  "RuneError = 0xFFFD"

definition cont :: "char \<Rightarrow> bool" where
  "cont c = (0x80 \<le> byte c \<and> byte c \<le> 0xBF)"

text \<open>\<^verbatim>\<open>utf8.DecodeRuneInString\<close>: the first rune of a non-empty string and its width.\<close>

fun DecodeRune :: "string \<Rightarrow> nat \<times> nat" where
  "DecodeRune [] = (RuneError, 0)"
| "DecodeRune (b0 # bs) =
     (let x = byte b0 in
      if x < 0x80 then (x, 1)
      else if 0xC2 \<le> x \<and> x \<le> 0xDF then
        (case bs of
           b1 # _ \<Rightarrow> if cont b1 then ((x - 0xC0) * 64 + (byte b1 - 0x80), 2) else (RuneError, 1)
         | _ \<Rightarrow> (RuneError, 1))
      else if 0xE0 \<le> x \<and> x \<le> 0xEF then
        (case bs of
           b1 # b2 # _ \<Rightarrow>
             if (if x = 0xE0 then 0xA0 else 0x80) \<le> byte b1
                \<and> byte b1 \<le> (if x = 0xED then 0x9F else 0xBF) \<and> cont b2
             then ((x - 0xE0) * 4096 + (byte b1 - 0x80) * 64 + (byte b2 - 0x80), 3)
             else (RuneError, 1)
         | _ \<Rightarrow> (RuneError, 1))
      else if 0xF0 \<le> x \<and> x \<le> 0xF4 then
        (case bs of
           b1 # b2 # b3 # _ \<Rightarrow>
             if (if x = 0xF0 then 0x90 else 0x80) \<le> byte b1
                \<and> byte b1 \<le> (if x = 0xF4 then 0x8F else 0xBF) \<and> cont b2 \<and> cont b3
             then ((x - 0xF0) * 262144 + (byte b1 - 0x80) * 4096
                   + (byte b2 - 0x80) * 64 + (byte b3 - 0x80), 4)
             else (RuneError, 1)
         | _ \<Rightarrow> (RuneError, 1))
      else (RuneError, 1))"

text \<open>\<^verbatim>\<open>utf8.AppendRune\<close>: surrogates and values above \<^verbatim>\<open>U+10FFFF\<close> encode \<^verbatim>\<open>U+FFFD\<close>.\<close>

definition EncodeRune :: "nat \<Rightarrow> string" where
  "EncodeRune r =
     (if r < 0x80 then [char_of r]
      else if r < 0x800 then [char_of (0xC0 + r div 64), char_of (0x80 + r mod 64)]
      else if (0xD800 \<le> r \<and> r \<le> 0xDFFF) \<or> 0x10FFFF < r then [CHR 0xEF, CHR 0xBF, CHR 0xBD]
      else if r < 0x10000 then
        [char_of (0xE0 + r div 4096), char_of (0x80 + (r div 64) mod 64), char_of (0x80 + r mod 64)]
      else
        [char_of (0xF0 + r div 262144), char_of (0x80 + (r div 4096) mod 64),
         char_of (0x80 + (r div 64) mod 64), char_of (0x80 + r mod 64)])"

fun MapRunes :: "(nat \<Rightarrow> nat) \<Rightarrow> string \<Rightarrow> string" where
  "MapRunes f [] = []"
| "MapRunes f (b # bs) =
     EncodeRune (f (fst (DecodeRune (b # bs)))) @ MapRunes f (drop (snd (DecodeRune (b # bs)) - 1) bs)"

definition asciiLower :: "char \<Rightarrow> char" where
  "asciiLower c = (if 0x41 \<le> byte c \<and> byte c \<le> 0x5A then char_of (byte c + 32) else c)"

definition ToLower :: "(nat \<Rightarrow> nat) \<Rightarrow> string \<Rightarrow> string" where
  "ToLower lc s = (if list_all (\<lambda>c. byte c < 0x80) s then map asciiLower s else MapRunes lc s)"

text \<open>
  The entries of \<^verbatim>\<open>unicode.ToLower\<close> for the ASCII letters and for \<^verbatim>\<open>U+023A\<close> (LATIN
  CAPITAL LETTER A WITH STROKE, two bytes in UTF-8), whose lower case \<^verbatim>\<open>U+2C65\<close> takes
  three bytes. Every other rune is left as it is. The closed examples below use this
  fragment of the table and contain no other cased letter.
\<close>

definition caseTable :: "nat \<Rightarrow> nat" where
  "caseTable r = (if 0x41 \<le> r \<and> r \<le> 0x5A then r + 32 else if r = 0x23A then 0x2C65 else r)"

section \<open>Go regular expressions\<close>

text \<open>
  The patterns of the program use literals, byte classes, \<^verbatim>\<open>^\<close>, \<^verbatim>\<open>$\<close>, concatenation,
  alternation, greedy and lazy repetition and capture groups. Package \<^verbatim>\<open>regexp\<close>
  returns the leftmost match, and among the matches that start there the one a
  backtracking search finds first (the earlier alternative first, a greedy repetition
  longest first, a lazy one shortest first). \<open>rmatch\<close> is that search; its
  continuation receives the offset, the rest of the text and the groups closed so far.
  All literals of the patterns are ASCII and every class is a set of ASCII bytes or the
  complement of one, so matching a UTF-8 text byte by byte finds the same offsets as
  matching it rune by rune.
\<close>

type_synonym caps = "(nat \<times> nat \<times> nat) list"

datatype rx =
    Eps
  | Ch char
  | In "(char \<times> char) list"
  | NotIn "(char \<times> char) list"
  | Bol
  | Eol
  | Cat rx rx
  | Alt rx rx
  | Star rx
  | StarLazy rx
  | Grp nat rx

fun in_ranges :: "char \<Rightarrow> (char \<times> char) list \<Rightarrow> bool" where
  "in_ranges c [] = False"
| "in_ranges c ((lo, hi) # rs) = ((byte lo \<le> byte c \<and> byte c \<le> byte hi) \<or> in_ranges c rs)"

text \<open>
  An iteration of a repetition that consumes nothing is not taken again; no repeated
  sub-pattern of this program matches the empty string.
\<close>

fun rmatch ::
  "rx \<Rightarrow> nat \<Rightarrow> string \<Rightarrow> caps \<Rightarrow> (nat \<Rightarrow> string \<Rightarrow> caps \<Rightarrow> 'a option) \<Rightarrow> 'a option" where
  "rmatch Eps i s c k = k i s c"
| "rmatch (Ch x) i s c k =
     (case s of [] \<Rightarrow> None | y # ys \<Rightarrow> if y = x then k (Suc i) ys c else None)"
| "rmatch (In rs) i s c k =
     (case s of [] \<Rightarrow> None | y # ys \<Rightarrow> if in_ranges y rs then k (Suc i) ys c else None)"
| "rmatch (NotIn rs) i s c k =
     (case s of [] \<Rightarrow> None | y # ys \<Rightarrow> if in_ranges y rs then None else k (Suc i) ys c)"
| "rmatch Bol i s c k = (if i = 0 then k i s c else None)"
| "rmatch Eol i s c k = (if s = [] then k i s c else None)"
| "rmatch (Cat a b) i s c k = rmatch a i s c (\<lambda>i' s' c'. rmatch b i' s' c' k)"
| "rmatch (Alt a b) i s c k =
     (case rmatch a i s c k of Some r \<Rightarrow> Some r | None \<Rightarrow> rmatch b i s c k)"
| "rmatch (Star a) i s c k =
     (case rmatch a i s c
             (\<lambda>i' s' c'. if length s' < length s then rmatch (Star a) i' s' c' k else None) of
        Some r \<Rightarrow> Some r
      | None \<Rightarrow> k i s c)"
| "rmatch (StarLazy a) i s c k =
     (case k i s c of
        Some r \<Rightarrow> Some r
      | None \<Rightarrow>
          rmatch a i s c
            (\<lambda>i' s' c'. if length s' < length s then rmatch (StarLazy a) i' s' c' k else None))"
| "rmatch (Grp n a) i s c k = rmatch a i s c (\<lambda>i' s' c'. k i' s' ((n, i, i') # c'))"

text \<open>
  The leftmost match at or after offset \<open>i\<close>, where \<open>s\<close> is the text from \<open>i\<close> on:
  its start, its end, the text after it and its groups.
\<close>

fun rsearch :: "rx \<Rightarrow> nat \<Rightarrow> string \<Rightarrow> (nat \<times> nat \<times> string \<times> caps) option" where
  "rsearch r i s =
     (case rmatch r i s [] (\<lambda>e s' c. Some (i, e, s', c)) of
        Some m \<Rightarrow> Some m
      | None \<Rightarrow> (case s of [] \<Rightarrow> None | y # ys \<Rightarrow> rsearch r (Suc i) ys))"

text \<open>
  All successive matches (\<^verbatim>\<open>FindAll...(s, -1)\<close>): the search resumes where the last
  match ended. The two patterns used this way match at least three bytes.
\<close>

function rfindall :: "rx \<Rightarrow> nat \<Rightarrow> string \<Rightarrow> (nat \<times> nat \<times> caps) list" where
  "rfindall r i s =
     (case rsearch r i s of
        None \<Rightarrow> []
      | Some (b, e, s', c) \<Rightarrow>
          (b, e, c) # (if length s' < length s then rfindall r e s' else []))"
  by pat_completeness auto
termination
  by (relation "measure (\<lambda>(r, i, s). length s)") auto

definition Opt :: "rx \<Rightarrow> rx" where
  "Opt r = Alt r Eps"

definition Plus :: "rx \<Rightarrow> rx" where
  "Plus r = Cat r (Star r)"

definition Dot :: rx where
  "Dot = NotIn [(CHR 0x0A, CHR 0x0A)]"

fun lit :: "string \<Rightarrow> rx" where
  "lit [] = Eps"
| "lit [x] = Ch x"
| "lit (x # xs) = Cat (Ch x) (lit xs)"

fun cats :: "rx list \<Rightarrow> rx" where
  "cats [] = Eps"
| "cats [r] = r"
| "cats (r # rs) = Cat r (cats rs)"

fun alts :: "rx list \<Rightarrow> rx" where
  "alts [] = Eps"
| "alts [r] = r"
| "alts (r # rs) = Alt r (alts rs)"

definition one :: "string \<Rightarrow> rx" where
  "one cs = In (map (\<lambda>c. (c, c)) cs)"

definition none_of :: "string \<Rightarrow> rx" where
  "none_of cs = NotIn (map (\<lambda>c. (c, c)) cs)"

definition MatchString :: "rx \<Rightarrow> string \<Rightarrow> bool" where
  "MatchString r s = (rsearch r 0 s \<noteq> None)"

text \<open>The text of group \<open>n\<close>, empty when the group took no part in the match.\<close>

definition group_text :: "string \<Rightarrow> caps \<Rightarrow> nat \<Rightarrow> string" where
  "group_text s c n = (case map_of c n of None \<Rightarrow> [] | Some (b, e) \<Rightarrow> take (e - b) (drop b s))"

text \<open>The numbers of the groups of a pattern, in the order of their opening parentheses.\<close>

fun groups :: "rx \<Rightarrow> nat list" where
  "groups (Cat a b) = groups a @ groups b"
| "groups (Alt a b) = groups a @ groups b"
| "groups (Star a) = groups a"
| "groups (StarLazy a) = groups a"
| "groups (Grp n a) = n # groups a"
| "groups r = []"

text \<open>
  \<^verbatim>\<open>FindStringSubmatch\<close>: the match followed by the text of every group of the pattern,
  or the empty list (\<^verbatim>\<open>nil\<close>) when nothing matches.
\<close>

definition FindStringSubmatch :: "rx \<Rightarrow> string \<Rightarrow> string list" where
  "FindStringSubmatch r s =
     (case rsearch r 0 s of
        None \<Rightarrow> []
      | Some (b, e, s', c) \<Rightarrow> take (e - b) (drop b s) # map (group_text s c) (groups r))"

definition FindAllStringIndex :: "rx \<Rightarrow> string \<Rightarrow> (int \<times> int) list" where
  "FindAllStringIndex r s = map (\<lambda>(b, e, c). (int b, int e)) (rfindall r 0 s)"

definition FindAllString :: "rx \<Rightarrow> string \<Rightarrow> string list" where
  "FindAllString r s = map (\<lambda>(b, e, c). take (e - b) (drop b s)) (rfindall r 0 s)"

section \<open>Package parser: the patterns\<close>

text \<open>
  \<^verbatim>\<open>fieldReg = ^[*-] *`(.*?)` +\- +(\(Required\)|\(Optional\))? ?(.*)\<close>
\<close>

definition fieldReg :: rx where
  "fieldReg =
     cats [Bol, one ''*-'', Star (Ch CHR '' ''), Ch CHR 0x60, Grp 1 (StarLazy Dot), Ch CHR 0x60,
           Plus (Ch CHR '' ''), Ch CHR ''-'', Plus (Ch CHR '' ''),
           Opt (Grp 2 (Alt (lit ''(Required)'') (lit ''(Optional)''))),
           Opt (Ch CHR '' ''), Grp 3 (Star Dot)]"

text \<open>\<^verbatim>\<open>codeReg = `([^`]+)`\<close>\<close>

definition codeReg :: rx where
  "codeReg = cats [Ch CHR 0x60, Grp 1 (Plus (none_of [CHR 0x60])), Ch CHR 0x60]"

definition word_class :: rx where
  "word_class = In [(CHR ''a'', CHR ''z''), (CHR ''A'', CHR ''Z''), (CHR ''0'', CHR ''9''),
                    (CHR ''_'', CHR ''_'')]"

text \<open>\<^verbatim>\<open>blockHeadReg = ^(an?|An?|The)[^`]+(`[a-zA-Z0-9_]+`[, and]*)+.*blocks?.*$\<close>\<close>

definition blockHeadReg :: rx where
  "blockHeadReg =
     cats [Bol,
           Grp 1 (alts [Cat (Ch CHR ''a'') (Opt (Ch CHR ''n'')),
                        Cat (Ch CHR ''A'') (Opt (Ch CHR ''n'')), lit ''The'']),
           Plus (none_of [CHR 0x60]),
           Plus (Grp 2 (cats [Ch CHR 0x60, Plus word_class, Ch CHR 0x60, Star (one '', and'')])),
           Star Dot, lit ''block'', Opt (Ch CHR ''s''), Star Dot, Eol]"

text \<open>\<^verbatim>\<open>blockTypeReg = `([a-zA-Z0-9_]+)`\<close>\<close>

definition blockTypeReg :: rx where
  "blockTypeReg = cats [Ch CHR 0x60, Grp 1 (Plus word_class), Ch CHR 0x60]"

text \<open>
  \<^verbatim>\<open>DefaultsReg = [.,?;](?: *[Tt]he)? *[Dd]efaults?[^`'".]+(?:to|is) ('[^']+'|`[^`]+`|"[^"]+")[ .,]?\<close>
\<close>

definition DefaultsReg :: rx where
  "DefaultsReg =
     cats [one ''.,?;'', Opt (cats [Star (Ch CHR '' ''), one ''Tt'', lit ''he'']),
           Star (Ch CHR '' ''), one ''Dd'', lit ''efault'', Opt (Ch CHR ''s''),
           Plus (none_of [CHR 0x60, CHR 0x27, CHR 0x22, CHR ''.'']),
           Alt (lit ''to'') (lit ''is''), Ch CHR '' '',
           Grp 1 (alts [cats [Ch CHR 0x27, Plus (none_of [CHR 0x27]), Ch CHR 0x27],
                        cats [Ch CHR 0x60, Plus (none_of [CHR 0x60]), Ch CHR 0x60],
                        cats [Ch CHR 0x22, Plus (none_of [CHR 0x22]), Ch CHR 0x22]]),
           Opt (one '' .,'')]"

text \<open>\<^verbatim>\<open>ForceNewReg = ` ?Changing.*forces? a [^.]*(\.|$)`\<close>\<close>

definition ForceNewReg :: rx where
  "ForceNewReg =
     cats [Opt (Ch CHR '' ''), lit ''Changing'', Star Dot, lit ''force'', Opt (Ch CHR ''s''),
           lit '' a '', Star (none_of ''.''), Grp 1 (Alt (Ch CHR ''.'') Eol)]"

text \<open>\<^verbatim>\<open>partForceNewReg = ` ?Changing.*forces? a [^.]* created when [^.]*(\.|$)`\<close>\<close>

definition partForceNewReg :: rx where
  "partForceNewReg =
     cats [Opt (Ch CHR '' ''), lit ''Changing'', Star Dot, lit ''force'', Opt (Ch CHR ''s''),
           lit '' a '', Star (none_of ''.''), lit '' created when '', Star (none_of ''.''),
           Grp 1 (Alt (Ch CHR ''.'') Eol)]"

text \<open>
  \<^verbatim>\<open>blockPropRegs[0] = (?:[Oo]ne|[Ee]ach|more(?: \(.*\))?|[Tt]he|as|of|[Aa]n?) ['"`]([^ ]+)['"`] (?:block|object)[^.]+(?:below|above)\<close>
\<close>

definition blockPropReg :: rx where
  "blockPropReg =
     cats [alts [Cat (one ''Oo'') (lit ''ne''), Cat (one ''Ee'') (lit ''ach''),
                 Cat (lit ''more'') (Opt (cats [lit '' ('', Star Dot, Ch CHR '')''])),
                 Cat (one ''Tt'') (lit ''he''), lit ''as'', lit ''of'',
                 Cat (one ''Aa'') (Opt (Ch CHR ''n''))],
           Ch CHR '' '', one [CHR 0x27, CHR 0x22, CHR 0x60], Grp 1 (Plus (none_of '' '')),
           one [CHR 0x27, CHR 0x22, CHR 0x60], Ch CHR '' '',
           Alt (lit ''block'') (lit ''object''), Plus (none_of ''.''),
           Alt (lit ''below'') (lit ''above'')]"

section \<open>Package parser: default value and force-new\<close>

text \<open>
  \<^verbatim>\<open>getDefaultValue\<close>: group 1 of the first match of \<open>DefaultsReg\<close> without its first
  and last byte, when it has more than two bytes; otherwise the empty string.
\<close>

definition getDefaultValue :: "string \<Rightarrow> string" where
  "getDefaultValue line =
     (case FindStringSubmatch DefaultsReg line of
        [] \<Rightarrow> []
      | vals \<Rightarrow>
          (let val = vals ! 1 in
           if 2 < length val then take (length val - 1 - 1) (drop 1 val) else []))"

definition isForceNew :: "string \<Rightarrow> bool" where
  "isForceNew line = (MatchString ForceNewReg line \<and> \<not> MatchString partForceNewReg line)"

section \<open>Package types\<close>

text \<open>
  \<^verbatim>\<open>PositionType\<close> and \<^verbatim>\<open>RequiredType\<close> are Go integers with named constants;
  \<^verbatim>\<open>RequiredOptional = 1 << iota\<close> stands on the second line of its block, so it is 2.
\<close>

type_synonym PositionType = int

type_synonym RequiredType = int

definition PosDefault :: PositionType where "PosDefault = 0"

definition PosExample :: PositionType where "PosExample = 1"

definition PosArgs :: PositionType where "PosArgs = 2"

definition PosAttr :: PositionType where "PosAttr = 3"

definition PosTimeout :: PositionType where "PosTimeout = 4"

definition PosImport :: PositionType where "PosImport = 5"

definition PosOther :: PositionType where "PosOther = 100"

definition RequiredDefault :: RequiredType where "RequiredDefault = 0"

definition RequiredOptional :: RequiredType where "RequiredOptional = 2"

definition RequiredRequired :: RequiredType where "RequiredRequired = 4"

definition RequiredComputed :: RequiredType where "RequiredComputed = 8"

section \<open>Package parser: extracting a field from a line\<close>

text \<open>
  \<^verbatim>\<open>parser.ParsedField\<close>. \<^verbatim>\<open>DefaultValue\<close> is an \<^verbatim>\<open>interface{}\<close> that holds nothing or
  a string.
\<close>

record ParsedField =
  Name :: string
  Line :: int
  Position :: PositionType
  RequiredStatus :: RequiredType
  Required :: bool
  Optional :: bool
  Content :: string
  DefaultValue :: "string option"
  ForceNew :: bool
  PossibleValues :: "string list"
  GuessEnums :: "string list"
  EnumStart :: int
  EnumEnd :: int
  ParseErrors :: "string list"
  Block :: bool
  BlockTypeName :: string

definition FirstCodeValue :: "string \<Rightarrow> string" where
  "FirstCodeValue line =
     (let matches = FindStringSubmatch codeReg line in
      if 1 < length matches then matches ! 1 else [])"

definition IsBlockHead :: "string \<Rightarrow> bool" where
  "IsBlockHead line = MatchString blockHeadReg line"

definition ExtractBlockNames :: "string \<Rightarrow> panic + string list" where
  "ExtractBlockNames line =
     (if \<not> MatchString blockHeadReg line then Inr []
      else
        (let idx = Index line ''block'' in
         if idx \<le> 0 then Inr []
         else
           (case slice line 0 idx of
              Inl e \<Rightarrow> Inl e
            | Inr before \<Rightarrow>
                Inr (filter (\<lambda>name. name \<noteq> [])
                       (map (\<lambda>m. Trim m [CHR 0x60, CHR 0x27]) (FindAllString codeReg before))))))"

definition guessBlockProperty :: "string \<Rightarrow> bool" where
  "guessBlockProperty line = (MatchString blockPropReg line \<or> Contains line ''A block to'')"

text \<open>
  \<^verbatim>\<open>extractBlockTypeName\<close> looks for the first back-quoted identifier in the lowered
  line and cuts the original line at the offsets found there.
\<close>

definition extractBlockTypeName :: "(nat \<Rightarrow> nat) \<Rightarrow> string \<Rightarrow> string \<Rightarrow> panic + string" where
  "extractBlockTypeName lc line fieldName =
     (case rfindall blockTypeReg 0 (ToLower lc line) of
        [] \<Rightarrow> Inr fieldName
      | (b, e, c) # _ \<Rightarrow>
          (case map_of c 1 of
             None \<Rightarrow> slice line (-1) (-1)
           | Some (gb, ge) \<Rightarrow> slice line (int gb) (int ge)))"

text \<open>
  \<^verbatim>\<open>ProcessBlockDefinition\<close>: the block names, and the first code value after the
  first of \<^verbatim>\<open>" of "\<close>, \<^verbatim>\<open>" within "\<close> that occurs at an offset above 0.
\<close>

fun blockOfLoop :: "string \<Rightarrow> string list \<Rightarrow> panic + string" where
  "blockOfLoop line [] = Inr []"
| "blockOfLoop line (sep # seps) =
     (let idx = Index line sep in
      if 0 < idx then
        (case sliceFrom line idx of Inl e \<Rightarrow> Inl e | Inr rest \<Rightarrow> Inr (FirstCodeValue rest))
      else blockOfLoop line seps)"

definition ProcessBlockDefinition :: "string \<Rightarrow> panic + (string list \<times> string)" where
  "ProcessBlockDefinition line =
     (case ExtractBlockNames line of
        Inl e \<Rightarrow> Inl e
      | Inr blockNames \<Rightarrow>
          (case blockOfLoop line ['' of '', '' within ''] of
             Inl e \<Rightarrow> Inl e
           | Inr blockOf \<Rightarrow> Inr (blockNames, blockOf)))"

text \<open>
  \<^verbatim>\<open>AddEnum\<close> and \<^verbatim>\<open>SetGuessEnums\<close>: trim the quotes, drop empty and repeated values.
  The Go map of values seen so far holds exactly the members of the list built so far.
\<close>

definition quoteSet :: string where
  "quoteSet = [CHR 0x60, CHR 0x22, CHR 0x27]"

fun addEnumLoop :: "string list \<Rightarrow> string list \<Rightarrow> string list" where
  "addEnumLoop pv [] = pv"
| "addEnumLoop pv (v # vs) =
     (let trimmed = Trim v quoteSet in
      if trimmed \<noteq> [] \<and> trimmed \<notin> set pv then addEnumLoop (pv @ [trimmed]) vs
      else addEnumLoop pv vs)"

definition AddEnum :: "ParsedField \<Rightarrow> string list \<Rightarrow> ParsedField" where
  "AddEnum f vals = f\<lparr>PossibleValues := addEnumLoop (PossibleValues f) vals\<rparr>"

definition SetGuessEnums :: "ParsedField \<Rightarrow> string list \<Rightarrow> ParsedField" where
  "SetGuessEnums f vals = f\<lparr>GuessEnums := addEnumLoop [] vals\<rparr>"

text \<open>
  The closure \<^verbatim>\<open>possibleValueSep\<close> of \<^verbatim>\<open>extractPossibleValues\<close>: the phrases are tried
  in the order of the list, and the offset (in the lowered line) of the first phrase that
  occurs at all is returned.
\<close>

definition enumSeps :: "string list" where
  "enumSeps = [''possible value'', ''must be one of'', ''be one of'', ''allowed value'',
               ''valid value'', ''supported value'', ''valid option'', ''accepted value'']"

fun firstSep :: "string \<Rightarrow> string list \<Rightarrow> int" where
  "firstSep l [] = -1"
| "firstSep l (sep # seps) = (if 0 \<le> Index l sep then Index l sep else firstSep l seps)"

definition possibleValueSep :: "(nat \<Rightarrow> nat) \<Rightarrow> string \<Rightarrow> int" where
  "possibleValueSep lc line = firstSep (ToLower lc line) enumSeps"

text \<open>
  The loop over the code spans of \<^verbatim>\<open>subStr\<close>: \<open>pointEnd\<close> is the offset of the period
  that ends the clause; a \<^verbatim>\<open>break\<close> returns what was collected.
\<close>

fun enumLoop ::
  "string \<Rightarrow> int \<Rightarrow> (int \<times> int) list \<Rightarrow> int \<Rightarrow> string list \<Rightarrow> ParsedField
     \<Rightarrow> panic + (string list \<times> ParsedField)" where
  "enumLoop subStr sepIdx [] pointEnd enums field = Inr (enums, field)"
| "enumLoop subStr sepIdx ((start, end) # spans) pointEnd enums field =
     (case (if start < pointEnd \<and> pointEnd < end
            then (case sliceFrom subStr end of
                    Inl e \<Rightarrow> Inl e
                  | Inr tail \<Rightarrow>
                      (let newPointEnd = Index tail ''.'' in
                       if 0 \<le> newPointEnd then Inr (end + newPointEnd)
                       else Inr (int (length subStr))))
            else Inr pointEnd) of
        Inl e \<Rightarrow> Inl e
      | Inr pointEnd' \<Rightarrow>
          if pointEnd' < start then Inr (enums, field)
          else
            (case slice subStr start end of
               Inl e \<Rightarrow> Inl e
             | Inr tok \<Rightarrow>
                 enumLoop subStr sepIdx spans pointEnd'
                   (enums @ [Trim tok [CHR 0x60, CHR 0x27, CHR 0x22]])
                   (field\<lparr>EnumEnd := sepIdx + end\<rparr>)))"

definition multipleSectionsError :: string where
  "multipleSectionsError = ''multiple possible value sections detected, skipping enum extraction''"

definition extractPossibleValues ::
  "(nat \<Rightarrow> nat) \<Rightarrow> string \<Rightarrow> ParsedField \<Rightarrow> panic + (string list \<times> ParsedField)" where
  "extractPossibleValues lc line field =
     (let sepIdx = possibleValueSep lc line in
      if sepIdx \<le> 0 then Inr ([], field)
      else
        (case sliceFrom line sepIdx of
           Inl e \<Rightarrow> Inl e
         | Inr subStr \<Rightarrow>
             (let pointEnd = (if Index subStr ''.'' < 0 then int (length subStr)
                              else Index subStr ''.'')
              in
              case enumLoop subStr sepIdx (FindAllStringIndex codeReg subStr) pointEnd []
                     (field\<lparr>EnumStart := sepIdx\<rparr>) of
                Inl e \<Rightarrow> Inl e
              | Inr (enums, field') \<Rightarrow>
                  (case sliceFrom line (sepIdx + 1) of
                     Inl e \<Rightarrow> Inl e
                   | Inr rest \<Rightarrow>
                       if 0 \<le> possibleValueSep lc rest
                       then Inr (enums,
                                 field'\<lparr>ParseErrors := ParseErrors field' @ [multipleSectionsError]\<rparr>)
                       else Inr (enums, field')))))"

text \<open>
  \<^verbatim>\<open>ExtractFieldFromLine\<close>. Its steps are functions of their own here, in the order
  of the source.
\<close>

definition newField :: "string \<Rightarrow> PositionType \<Rightarrow> int \<Rightarrow> ParsedField" where
  "newField line position lineNumber =
     \<lparr>Name = [], Line = lineNumber, Position = position, RequiredStatus = 0,
      Required = False, Optional = False, Content = line, DefaultValue = None,
      ForceNew = False, PossibleValues = [], GuessEnums = [], EnumStart = 0, EnumEnd = 0,
      ParseErrors = [], Block = False, BlockTypeName = []\<rparr>"

definition setRequired :: "string \<Rightarrow> string list \<Rightarrow> ParsedField \<Rightarrow> ParsedField" where
  "setRequired line res field =
     (if 2 < length res then
        (if Contains line ''(Required)''
         then field\<lparr>RequiredStatus := RequiredRequired, Required := True\<rparr>
         else if Contains line ''(Optional)''
         then field\<lparr>RequiredStatus := RequiredOptional, Optional := True\<rparr>
         else if Contains line ''Required''
         then field\<lparr>RequiredStatus := RequiredRequired, Required := True\<rparr>
         else if Contains line ''Optional''
         then field\<lparr>RequiredStatus := RequiredOptional, Optional := True\<rparr>
         else field)
      else field)"

definition setEnums ::
  "(nat \<Rightarrow> nat) \<Rightarrow> string \<Rightarrow> string list \<Rightarrow> ParsedField \<Rightarrow> panic + ParsedField" where
  "setEnums lc line res field =
     (if 3 < length res then
        (case extractPossibleValues lc line field of
           Inl e \<Rightarrow> Inl e
         | Inr (enums, field') \<Rightarrow>
             (let field'' = AddEnum field' enums in
              if length (PossibleValues field'') = 0 \<and> 0 < Index (res ! 3) [CHR 0x60]
              then Inr (SetGuessEnums field'' (FindAllString codeReg (res ! 3)))
              else Inr field''))
      else Inr field)"

definition setBlock :: "(nat \<Rightarrow> nat) \<Rightarrow> string \<Rightarrow> ParsedField \<Rightarrow> panic + ParsedField" where
  "setBlock lc line field =
     (if guessBlockProperty line then
        (case extractBlockTypeName lc line (Name field) of
           Inl e \<Rightarrow> Inl e
         | Inr btn \<Rightarrow> Inr (field\<lparr>Block := True, BlockTypeName := btn\<rparr>))
      else Inr field)"

text \<open>
  Binding the name: the first group of \<open>fieldReg\<close>, or else the first code value of the
  line; \<open>Inl\<close> is the early return of a field without a name.
\<close>

definition setName :: "string \<Rightarrow> string list \<Rightarrow> ParsedField \<Rightarrow> ParsedField + ParsedField" where
  "setName line res field =
     (if length res \<le> 1 \<or> res ! 1 = [] then
        (let field' = field\<lparr>Name := FirstCodeValue line\<rparr> in
         if Name field' = []
         then Inl (field'\<lparr>ParseErrors := ParseErrors field' @ [''no field name found'']\<rparr>)
         else Inr field')
      else Inr (field\<lparr>Name := res ! 1\<rparr>))"

definition ExtractFieldFromLine ::
  "(nat \<Rightarrow> nat) \<Rightarrow> string \<Rightarrow> PositionType \<Rightarrow> int \<Rightarrow> panic + ParsedField" where
  "ExtractFieldFromLine lc line position lineNumber =
     (let field0 = newField line position lineNumber;
          field1 = (if getDefaultValue line \<noteq> []
                    then field0\<lparr>DefaultValue := Some (getDefaultValue line)\<rparr> else field0);
          field2 = field1\<lparr>ForceNew := isForceNew line\<rparr>;
          res = FindStringSubmatch fieldReg line
      in
      case setName line res field2 of
        Inl early \<Rightarrow> Inr early
      | Inr field3 \<Rightarrow>
          (let field4 = (if Name field3 = []
                         then field3\<lparr>ParseErrors := ParseErrors field3 @ [''field name is empty'']\<rparr>
                         else field3)
           in
           case setEnums lc line res (setRequired line res field4) of
             Inl e \<Rightarrow> Inl e
           | Inr field5 \<Rightarrow> setBlock lc line field5))"

section \<open>Package markdown: the structured parser's enum extraction\<close>

text \<open>
  \<^verbatim>\<open>StructuredParser.extractPossibleValues\<close> runs the same scan without a field to
  write to, and returns \<^verbatim>\<open>nil\<close> when a second phrase follows the first.
\<close>

fun spEnumLoop :: "string \<Rightarrow> (int \<times> int) list \<Rightarrow> int \<Rightarrow> string list \<Rightarrow> panic + string list" where
  "spEnumLoop subStr [] pointEnd enums = Inr enums"
| "spEnumLoop subStr ((start, end) # spans) pointEnd enums =
     (case (if start < pointEnd \<and> pointEnd < end
            then (case sliceFrom subStr end of
                    Inl e \<Rightarrow> Inl e
                  | Inr tail \<Rightarrow>
                      (let p = Index tail ''.'' in
                       if p < 0 then Inr (int (length subStr)) else Inr (p + end)))
            else Inr pointEnd) of
        Inl e \<Rightarrow> Inl e
      | Inr pointEnd' \<Rightarrow>
          if pointEnd' < start then Inr enums
          else
            (case slice subStr start end of
               Inl e \<Rightarrow> Inl e
             | Inr tok \<Rightarrow>
                 spEnumLoop subStr spans pointEnd'
                   (enums @ [Trim tok [CHR 0x60, CHR 0x27, CHR 0x22]])))"

definition StructuredParser_extractPossibleValues ::
  "(nat \<Rightarrow> nat) \<Rightarrow> string \<Rightarrow> panic + string list" where
  "StructuredParser_extractPossibleValues lc line =
     (let sepIdx = possibleValueSep lc line in
      if 0 < sepIdx then
        (case sliceFrom line sepIdx of
           Inl e \<Rightarrow> Inl e
         | Inr subStr \<Rightarrow>
             (let pointEnd = (if Index subStr ''.'' < 0 then int (length subStr)
                              else Index subStr ''.'')
              in
              case spEnumLoop subStr (FindAllStringIndex codeReg subStr) pointEnd [] of
                Inl e \<Rightarrow> Inl e
              | Inr enums \<Rightarrow>
                  (case sliceFrom line (sepIdx + 1) of
                     Inl e \<Rightarrow> Inl e
                   | Inr rest \<Rightarrow> if 0 \<le> possibleValueSep lc rest then Inr [] else Inr enums)))
      else Inr [])"

section \<open>Package parser: the parsed tree\<close>

text \<open>
  \<^verbatim>\<open>parser.ParsedProperty\<close> embeds a \<^verbatim>\<open>ParsedField\<close>; its other plain fields are the
  record \<open>ParsedRest\<close>, its two pointers are options. \<^verbatim>\<open>ParsedProperties\<close> has the
  slice \<^verbatim>\<open>Names\<close> and the map \<^verbatim>\<open>Objects\<close>. A Go map is an association list with one entry
  per key here: \<open>mapPut\<close> replaces the value of a key in place or appends a new key, and
  \<^const>\<open>map_of\<close> looks a key up. Go visits the keys of a map in no fixed order; where the
  program ranges over a map, the model takes the entries in the order of the list.
\<close>

fun mapPut :: "'k \<Rightarrow> 'v \<Rightarrow> ('k \<times> 'v) list \<Rightarrow> ('k \<times> 'v) list" where
  "mapPut k v [] = [(k, v)]"
| "mapPut k v ((k', v') # kvs) = (if k = k' then (k, v) # kvs else (k', v') # mapPut k v kvs)"

record ParsedRest =
  ppType :: string
  ppDescription :: string
  ppComputed :: bool
  ppDeprecated :: bool
  ppBlockHasSection :: bool
  ppPath :: string
  ppNestedType :: string
  ppAdditionalLines :: "string list"
  ppCount :: int

datatype ParsedProperty =
  ParsedProperty (ppField: ParsedField) (ppRest: ParsedRest)
    (ppNested: "ParsedProperties option") (ppSameNameAttr: "ParsedProperty option")
and ParsedProperties =
  ParsedProperties (ppNames: "string list") (ppObjects: "(string \<times> ParsedProperty) list")

definition NewParsedProperties :: ParsedProperties where
  "NewParsedProperties = ParsedProperties [] []"

definition zeroRest :: ParsedRest where
  "zeroRest = \<lparr>ppType = [], ppDescription = [], ppComputed = False, ppDeprecated = False,
               ppBlockHasSection = False, ppPath = [], ppNestedType = [],
               ppAdditionalLines = [], ppCount = 0\<rparr>"

text \<open>
  \<^verbatim>\<open>(*ParsedProperties).AddProperty\<close>: the name is appended and the object stored under
  it, whether or not the name is there already.
\<close>

definition ParsedProperties_AddProperty ::
  "ParsedProperties option \<Rightarrow> ParsedProperty option \<Rightarrow> ParsedProperties option" where
  "ParsedProperties_AddProperty props p =
     (case props of
        None \<Rightarrow> None
      | Some ps \<Rightarrow>
          (case p of
             None \<Rightarrow> Some ps
           | Some q \<Rightarrow>
               if Name (ppField q) = [] then Some ps
               else Some (ParsedProperties (ppNames ps @ [Name (ppField q)])
                            (mapPut (Name (ppField q)) q (ppObjects ps)))))"

definition ParsedProperties_AddField ::
  "ParsedProperties option \<Rightarrow> ParsedField option \<Rightarrow> ParsedProperties option" where
  "ParsedProperties_AddField props f =
     (case f of
        None \<Rightarrow> props
      | Some fld \<Rightarrow>
          ParsedProperties_AddProperty props
            (Some (ParsedProperty fld zeroRest
                     (if Block fld then Some NewParsedProperties else None) None)))"

section \<open>Package markdown: \<^verbatim>\<open>ArgumentsSection.ParseFields\<close>\<close>

text \<open>
  The scan of the lines of the arguments section, without the cache. Its state is the
  tree built so far, the block that is open and the flag \<^verbatim>\<open>inBlock\<close>. In Go the open
  block is a pointer that the tree may hold already; the block is stored again under the
  same name before the tree is read, so storing the updated value gives the same tree.
\<close>

definition commitBlock ::
  "ParsedProperties \<Rightarrow> ParsedProperty option \<Rightarrow> bool \<Rightarrow> ParsedProperties" where
  "commitBlock properties currentBlock inBlock =
     (if inBlock \<and> currentBlock \<noteq> None
      then (case ParsedProperties_AddProperty (Some properties) currentBlock of
              Some ps \<Rightarrow> ps | None \<Rightarrow> properties)
      else properties)"

definition newBlock :: "string \<Rightarrow> int \<Rightarrow> string \<Rightarrow> string \<Rightarrow> ParsedProperty" where
  "newBlock name lineNum line blockOf =
     ParsedProperty
       ((newField line PosArgs lineNum)\<lparr>Name := name, Block := True, BlockTypeName := name\<rparr>)
       (if blockOf \<noteq> [] then zeroRest\<lparr>ppPath := blockOf @ ''.'' @ name\<rparr> else zeroRest)
       (Some NewParsedProperties) None"

definition addToBlock :: "ParsedProperty \<Rightarrow> ParsedField \<Rightarrow> ParsedProperty" where
  "addToBlock cb field =
     ParsedProperty (ppField cb) (ppRest cb)
       (ParsedProperties_AddField (ppNested cb) (Some field)) (ppSameNameAttr cb)"

fun ParseFieldsLoop ::
  "(nat \<Rightarrow> nat) \<Rightarrow> int \<Rightarrow> string list \<Rightarrow> ParsedProperties \<Rightarrow> ParsedProperty option \<Rightarrow> bool
     \<Rightarrow> panic + ParsedProperties" where
  "ParseFieldsLoop lc lineNum [] properties currentBlock inBlock =
     Inr (commitBlock properties currentBlock inBlock)"
| "ParseFieldsLoop lc lineNum (line # lines) properties currentBlock inBlock =
     (let trimmedLine = TrimSpace line in
      if trimmedLine = [] \<or> HasPrefix trimmedLine ''<!--'' then
        ParseFieldsLoop lc (lineNum + 1) lines properties currentBlock inBlock
      else if HasPrefix trimmedLine ''->'' \<or> HasPrefix trimmedLine ''~>'' then
        ParseFieldsLoop lc (lineNum + 1) lines properties currentBlock inBlock
      else if IsBlockHead trimmedLine then
        (case ProcessBlockDefinition trimmedLine of
           Inl e \<Rightarrow> Inl e
         | Inr (blockNames, blockOf) \<Rightarrow>
             if 0 < length blockNames then
               ParseFieldsLoop lc (lineNum + 1) lines
                 (commitBlock properties currentBlock inBlock)
                 (Some (newBlock (blockNames ! 0) lineNum line blockOf)) True
             else
               ParseFieldsLoop lc (lineNum + 1) lines
                 (commitBlock properties currentBlock inBlock) currentBlock inBlock)
      else if trimmedLine = ''---'' then
        (if inBlock \<and> currentBlock \<noteq> None then
           ParseFieldsLoop lc (lineNum + 1) lines
             (commitBlock properties currentBlock inBlock) None False
         else ParseFieldsLoop lc (lineNum + 1) lines properties currentBlock False)
      else if HasPrefix trimmedLine ''*'' \<or> HasPrefix trimmedLine ''-'' then
        (case ExtractFieldFromLine lc trimmedLine PosArgs lineNum of
           Inl e \<Rightarrow> Inl e
         | Inr field \<Rightarrow>
             if Name field \<noteq> [] then
               (case (inBlock, currentBlock) of
                  (True, Some cb) \<Rightarrow>
                    ParseFieldsLoop lc (lineNum + 1) lines properties
                      (Some (addToBlock cb field)) inBlock
                | _ \<Rightarrow>
                    ParseFieldsLoop lc (lineNum + 1) lines
                      (case ParsedProperties_AddField (Some properties) (Some field) of
                         Some ps \<Rightarrow> ps | None \<Rightarrow> properties)
                      currentBlock inBlock)
             else ParseFieldsLoop lc (lineNum + 1) lines properties currentBlock inBlock)
      else ParseFieldsLoop lc (lineNum + 1) lines properties currentBlock inBlock)"

definition ParseFields :: "(nat \<Rightarrow> nat) \<Rightarrow> string list \<Rightarrow> panic + ParsedProperties" where
  "ParseFields lc content = ParseFieldsLoop lc 0 content NewParsedProperties None False"

section \<open>Package data: properties\<close>

text \<open>
  \<^verbatim>\<open>data.Property\<close>: the plain fields are the record \<open>PropertyFields\<close> (each name with
  the prefix \<open>p\<close>, since \<^verbatim>\<open>ParsedField\<close> has fields of the same names), the pointers
  \<^verbatim>\<open>Nested\<close> and \<^verbatim>\<open>SameNameAttr\<close> are options. \<^verbatim>\<open>RequiredStatus\<close> is the field that
  \<^verbatim>\<open>convertParsedPropertyToProperty\<close> assigns. The values stored in \<^verbatim>\<open>Objects\<close> are
  properties, never \<^verbatim>\<open>nil\<close>.
\<close>

record PropertyFields =
  pName :: string
  pType :: string
  pDescription :: string
  pRequired :: bool
  pOptional :: bool
  pComputed :: bool
  pForceNew :: bool
  pDeprecated :: bool
  pPossibleValues :: "string list"
  pDefaultValue :: "string option"
  pBlock :: bool
  pBlockHasSection :: bool
  pNestedType :: string
  pAdditionalLines :: "string list"
  pCount :: int
  pPath :: string
  pLine :: int
  pPosition :: PositionType
  pRequiredStatus :: RequiredType
  pContent :: string
  pEnumStart :: int
  pEnumEnd :: int
  pParseErrors :: "string list"
  pBlockTypeName :: string
  pGuessEnums :: "string list"

datatype Property =
  Property (flds: PropertyFields) (Nested: "Properties option") (SameNameAttr: "Property option")
and Properties =
  Properties (Names: "string list") (Objects: "(string \<times> Property) list")

definition NewProperties :: Properties where
  "NewProperties = Properties [] []"

definition zeroFields :: PropertyFields where
  "zeroFields =
     \<lparr>pName = [], pType = [], pDescription = [], pRequired = False, pOptional = False,
      pComputed = False, pForceNew = False, pDeprecated = False, pPossibleValues = [],
      pDefaultValue = None, pBlock = False, pBlockHasSection = False, pNestedType = [],
      pAdditionalLines = [], pCount = 0, pPath = [], pLine = 0, pPosition = 0,
      pRequiredStatus = 0, pContent = [], pEnumStart = 0, pEnumEnd = 0, pParseErrors = [],
      pBlockTypeName = [], pGuessEnums = []\<rparr>"

text \<open>
  \<^verbatim>\<open>(*Properties).AddProperty\<close>: a name that is there already is counted on the entry
  that exists, and nothing is inserted.
\<close>

definition markDuplicate :: "Property \<Rightarrow> Property" where
  "markDuplicate existing =
     Property ((flds existing)\<lparr>pCount := pCount (flds existing) + 1,
                 pParseErrors := pParseErrors (flds existing)
                                  @ [''duplicate field in same section'']\<rparr>)
       (Nested existing) (SameNameAttr existing)"

definition Properties_AddProperty ::
  "Properties option \<Rightarrow> Property option \<Rightarrow> Properties option" where
  "Properties_AddProperty props p =
     (case props of
        None \<Rightarrow> None
      | Some ps \<Rightarrow>
          (case p of
             None \<Rightarrow> Some ps
           | Some q \<Rightarrow>
               if pName (flds q) = [] then Some ps
               else
                 (case map_of (Objects ps) (pName (flds q)) of
                    Some existing \<Rightarrow>
                      Some (Properties (Names ps)
                              (mapPut (pName (flds q)) (markDuplicate existing) (Objects ps)))
                  | None \<Rightarrow>
                      Some (Properties (Names ps @ [pName (flds q)])
                              (mapPut (pName (flds q)) q (Objects ps))))))"

text \<open>
  \<^verbatim>\<open>convertParsedPropertiesToProperties\<close> goes through \<^verbatim>\<open>parsed.Names\<close> and stores the
  converted object of every name that \<^verbatim>\<open>parsed.Objects\<close> has; a name that occurs twice
  is appended twice.
\<close>

definition convertFields :: "ParsedField \<Rightarrow> ParsedRest \<Rightarrow> PropertyFields" where
  "convertFields f r =
     \<lparr>pName = Name f, pType = ppType r, pDescription = ppDescription r,
      pRequired = Required f, pOptional = Optional f, pComputed = ppComputed r,
      pForceNew = ForceNew f, pDeprecated = ppDeprecated r,
      pPossibleValues = PossibleValues f, pDefaultValue = DefaultValue f, pBlock = Block f,
      pBlockHasSection = ppBlockHasSection r, pNestedType = [], pAdditionalLines = [],
      pCount = 0, pPath = ppPath r, pLine = Line f, pPosition = Position f,
      pRequiredStatus = RequiredStatus f, pContent = Content f, pEnumStart = EnumStart f,
      pEnumEnd = EnumEnd f, pParseErrors = ParseErrors f, pBlockTypeName = BlockTypeName f,
      pGuessEnums = GuessEnums f\<rparr>"

fun convertLoop :: "string list \<Rightarrow> (string \<times> Property) list \<Rightarrow> Properties \<Rightarrow> Properties" where
  "convertLoop [] converted result = result"
| "convertLoop (name # names) converted result =
     (case map_of converted name of
        Some prop \<Rightarrow>
          convertLoop names converted
            (Properties (Names result @ [name]) (mapPut name prop (Objects result)))
      | None \<Rightarrow> convertLoop names converted result)"

fun convertParsedPropertyToProperty :: "ParsedProperty \<Rightarrow> Property"
  and convertParsedPropertiesToProperties :: "ParsedProperties \<Rightarrow> Properties" where
  "convertParsedPropertyToProperty (ParsedProperty f r nested same) =
     Property (convertFields f r)
       (map_option convertParsedPropertiesToProperties nested)
       (map_option convertParsedPropertyToProperty same)"
| "convertParsedPropertiesToProperties (ParsedProperties names objs) =
     convertLoop names (map (\<lambda>(k, p). (k, convertParsedPropertyToProperty p)) objs)
       NewProperties"

section \<open>Package data: linking blocks\<close>

text \<open>
  \<^verbatim>\<open>BuildBlockStructure\<close>. A definition is a block with at least one nested object; a
  block without nested objects receives the nested tree of the definition found under its
  block type name (or its name), and the nested objects are then visited in turn. In Go
  the reference and the definition share one tree by pointer; here the reference holds a
  copy, which the visit treats as it treats the original. The visit follows the links it
  has just made, so it need not end (a block that refers to itself from its own body): it
  takes a bound on its depth and returns \<open>None\<close> when the bound is reached.
\<close>

definition nonEmpty :: "Properties option \<Rightarrow> bool" where
  "nonEmpty ps = (case ps of None \<Rightarrow> False | Some n \<Rightarrow> 0 < length (Objects n))"

fun collectDefinitions ::
  "(string \<times> Property) list \<Rightarrow> (string \<times> Property) list \<Rightarrow> (string \<times> Property) list" where
  "collectDefinitions [] defs = defs"
| "collectDefinitions ((name, prop) # more_props) defs =
     (if pBlock (flds prop) \<and> nonEmpty (Nested prop) then
        collectDefinitions more_props
          (if pBlockTypeName (flds prop) \<noteq> [] \<and> pBlockTypeName (flds prop) \<noteq> name
           then mapPut (pBlockTypeName (flds prop)) prop (mapPut name prop defs)
           else mapPut name prop defs)
      else collectDefinitions more_props defs)"

definition linkBlock :: "(string \<times> Property) list \<Rightarrow> Property \<Rightarrow> Property" where
  "linkBlock blockDefinitions prop =
     (if pBlock (flds prop) \<and> \<not> nonEmpty (Nested prop) then
        (case map_of blockDefinitions
                (if pBlockTypeName (flds prop) = [] then pName (flds prop)
                 else pBlockTypeName (flds prop)) of
           Some blockDef \<Rightarrow>
             (case Nested blockDef of
                Some n \<Rightarrow> Property (flds prop) (Some n) (SameNameAttr prop)
              | None \<Rightarrow> prop)
         | None \<Rightarrow> prop)
      else prop)"

fun fillBlockFields ::
  "nat \<Rightarrow> (string \<times> Property) list \<Rightarrow> Property \<Rightarrow> string \<Rightarrow> Property option"
  and fillAll ::
  "nat \<Rightarrow> (string \<times> Property) list \<Rightarrow> (string \<times> Property) list \<Rightarrow> string
     \<Rightarrow> (string \<times> Property) list option" where
  "fillBlockFields 0 blockDefinitions prop parentPath = None"
| "fillBlockFields (Suc depth) blockDefinitions prop parentPath =
     (case Nested (linkBlock blockDefinitions prop) of
        None \<Rightarrow> Some (linkBlock blockDefinitions prop)
      | Some n \<Rightarrow>
          (case fillAll depth blockDefinitions (Objects n)
                  (if parentPath \<noteq> [] then parentPath @ ''.'' @ pName (flds prop)
                   else pName (flds prop)) of
             None \<Rightarrow> None
           | Some objs \<Rightarrow>
               Some (Property (flds prop) (Some (Properties (Names n) objs))
                       (SameNameAttr prop))))"
| "fillAll depth blockDefinitions [] path = Some []"
| "fillAll depth blockDefinitions ((name, prop) # more_props) path =
     (case fillBlockFields depth blockDefinitions prop path of
        None \<Rightarrow> None
      | Some prop' \<Rightarrow>
          (case fillAll depth blockDefinitions more_props path of
             None \<Rightarrow> None
           | Some rest \<Rightarrow> Some ((name, prop') # rest)))"

definition BuildBlockStructure :: "nat \<Rightarrow> Properties option \<Rightarrow> Properties option option" where
  "BuildBlockStructure depth props =
     (case props of
        None \<Rightarrow> Some None
      | Some ps \<Rightarrow>
          (case fillAll depth (collectDefinitions (Objects ps) []) (Objects ps) [] of
             None \<Rightarrow> None
           | Some objs \<Rightarrow> Some (Some (Properties (Names ps) objs))))"

text \<open>Building the tree of a section and linking it.\<close>

definition buildAndLink :: "(nat \<Rightarrow> nat) \<Rightarrow> nat \<Rightarrow> string list \<Rightarrow> panic + Properties option option" where
  "buildAndLink lc depth content =
     (case ParseFields lc content of
        Inl e \<Rightarrow> Inl e
      | Inr parsed \<Rightarrow>
          Inr (BuildBlockStructure depth (Some (convertParsedPropertiesToProperties parsed))))"

section \<open>Package rule: S006\<close>

text \<open>
  The errors of rule S006 are the strings that \<^verbatim>\<open>fmt.Errorf\<close> builds. \<^verbatim>\<open>IdAndName(s)\<close>
  is the parameter \<open>idn\<close>. The third message of \<^verbatim>\<open>checkMissingInDoc\<close> is formatted
  without operands, so each of its verbs prints as \<^verbatim>\<open>%!s(MISSING)\<close>.
\<close>

definition digit :: "nat \<Rightarrow> char" where
  "digit d = char_of (48 + d)"

function digits :: "nat \<Rightarrow> string" where
  "digits n = (if n < 10 then [digit n] else digits (n div 10) @ [digit (n mod 10)])"
  by pat_completeness auto
termination
  by (relation "measure id") auto

definition itoa :: "int \<Rightarrow> string" where
  "itoa i = (if i < 0 then CHR ''-'' # digits (nat (- i)) else digits (nat i))"

definition fullPathOf :: "string \<Rightarrow> string \<Rightarrow> string" where
  "fullPathOf parentPath name = (if parentPath \<noteq> [] then parentPath @ ''.'' @ name else name)"

definition missingFromDocs :: "string \<Rightarrow> string \<Rightarrow> string" where
  "missingFromDocs idn fullPath =
     idn @ '': argument `'' @ fullPath
       @ ''` exists in schema but is missing from documentation at line '' @ itoa 0"

definition shouldBeBlock :: "string \<Rightarrow> string \<Rightarrow> string \<Rightarrow> int \<Rightarrow> string" where
  "shouldBeBlock idn fullPath name line =
     idn @ '': argument `'' @ fullPath
       @ ''` should be declared as a block (e.g., '' @ [CHR 0x27] @ ''One or more `'' @ name
       @ ''` block as defined below'' @ [CHR 0x27] @ '') at line '' @ itoa line"

definition blockMissing :: string where
  "blockMissing =
     ''%!s(MISSING): `%!s(MISSING)` block is missing from documentation ''
       @ ''(e.g. A / An `%!s(MISSING)` block supports the following:)''"

definition notInSchema :: "string \<Rightarrow> string \<Rightarrow> int \<Rightarrow> string" where
  "notInSchema idn fullPath line =
     idn @ '': argument `'' @ fullPath @ ''` is documented at line '' @ itoa line
       @ '' but does not exist in schema - should this be removed or is it misspelled?''"

text \<open>
  \<^verbatim>\<open>checkMissingInDoc\<close>: the loop over \<^verbatim>\<open>schema.Objects\<close> and its body for one property.
  The documentation is never \<^verbatim>\<open>nil\<close> here: \<^verbatim>\<open>Run\<close> and the recursive call check it.
\<close>

fun checkMissingInDoc ::
  "string \<Rightarrow> string \<Rightarrow> string \<Rightarrow> Properties option \<Rightarrow> Properties \<Rightarrow> string list"
  and checkMissingInDocLoop ::
  "string \<Rightarrow> string \<Rightarrow> string \<Rightarrow> (string \<times> Property) list \<Rightarrow> Properties \<Rightarrow> string list"
  and checkMissingInDocProperty ::
  "string \<Rightarrow> string \<Rightarrow> string \<Rightarrow> string \<Rightarrow> Property \<Rightarrow> Properties \<Rightarrow> string list" where
  "checkMissingInDoc idn resourceType parentPath None documentation = []"
| "checkMissingInDoc idn resourceType parentPath (Some (Properties names objs)) documentation =
     checkMissingInDocLoop idn resourceType parentPath objs documentation"
| "checkMissingInDocLoop idn resourceType parentPath [] documentation = []"
| "checkMissingInDocLoop idn resourceType parentPath ((name, property) # more_props)
     documentation =
     checkMissingInDocProperty idn resourceType parentPath name property documentation
       @ checkMissingInDocLoop idn resourceType parentPath more_props documentation"
| "checkMissingInDocProperty idn resourceType parentPath name (Property f nested same)
     documentation =
     (if \<not> pOptional f \<and> pComputed f then []
      else if name = ''id'' then []
      else if pDeprecated f then []
      else
        (case map_of (Objects documentation) name of
           None \<Rightarrow> [missingFromDocs idn (fullPathOf parentPath name)]
         | Some docProperty \<Rightarrow>
             if nonEmpty nested then
               (if \<not> nonEmpty (Nested docProperty) then
                  (if \<not> pBlock (flds docProperty)
                   then [shouldBeBlock idn (fullPathOf parentPath name) name
                           (pLine (flds docProperty))]
                   else [blockMissing])
                else
                  (case Nested docProperty of
                     Some nd \<Rightarrow>
                       checkMissingInDoc idn resourceType (fullPathOf parentPath name) nested nd
                   | None \<Rightarrow> []))
             else []))"

text \<open>
  \<^verbatim>\<open>firstCodeValue\<close> of package rule; both offsets are offsets found in the text itself.
\<close>

definition firstCodeValue :: "string \<Rightarrow> string" where
  "firstCodeValue text =
     (let start = Index text [CHR 0x60] in
      if start = -1 then []
      else
        (let end = Index (drop (nat (start + 1)) text) [CHR 0x60] in
         if end = -1 then []
         else take (nat end) (drop (nat (start + 1)) text)))"

text \<open>
  \<^verbatim>\<open>checkMissingInSchema\<close>. The offset of "not available for" is found in the lowered
  content and applied to the content itself, which can panic.
\<close>

definition notAvailableFor :: "(nat \<Rightarrow> nat) \<Rightarrow> string \<Rightarrow> string \<Rightarrow> panic + bool" where
  "notAvailableFor lc content fullPath =
     (let idx = Index (ToLower lc content) ''not available for'' in
      if 0 < idx then
        (case sliceFrom content idx of
           Inl e \<Rightarrow> Inl e
         | Inr remaining \<Rightarrow>
             Inr (firstCodeValue remaining \<noteq> []
                  \<and> Contains fullPath (firstCodeValue remaining)))
      else Inr False)"

fun checkMissingInSchema ::
  "(nat \<Rightarrow> nat) \<Rightarrow> string \<Rightarrow> string \<Rightarrow> string \<Rightarrow> Properties option \<Rightarrow> Properties
     \<Rightarrow> panic + string list"
  and checkMissingInSchemaLoop ::
  "(nat \<Rightarrow> nat) \<Rightarrow> string \<Rightarrow> string \<Rightarrow> string \<Rightarrow> (string \<times> Property) list \<Rightarrow> Properties
     \<Rightarrow> panic + string list"
  and checkMissingInSchemaProperty ::
  "(nat \<Rightarrow> nat) \<Rightarrow> string \<Rightarrow> string \<Rightarrow> string \<Rightarrow> string \<Rightarrow> Property \<Rightarrow> Properties
     \<Rightarrow> panic + string list" where
  "checkMissingInSchema lc idn resourceType parentPath None schema = Inr []"
| "checkMissingInSchema lc idn resourceType parentPath (Some (Properties names objs)) schema =
     checkMissingInSchemaLoop lc idn resourceType parentPath objs schema"
| "checkMissingInSchemaLoop lc idn resourceType parentPath [] schema = Inr []"
| "checkMissingInSchemaLoop lc idn resourceType parentPath ((name, docProperty) # more_props)
     schema =
     (case checkMissingInSchemaProperty lc idn resourceType parentPath name docProperty schema of
        Inl e \<Rightarrow> Inl e
      | Inr errs \<Rightarrow>
          (case checkMissingInSchemaLoop lc idn resourceType parentPath more_props schema of
             Inl e \<Rightarrow> Inl e
           | Inr errs' \<Rightarrow> Inr (errs @ errs')))"
| "checkMissingInSchemaProperty lc idn resourceType parentPath name (Property f nested same)
     schema =
     (if name = ''id'' then Inr []
      else if parentPath = [] \<and> pBlock f \<and> nonEmpty nested then Inr []
      else if Contains (ToLower lc (pContent f)) ''deprecated'' then Inr []
      else
        (case map_of (Objects schema) name of
           None \<Rightarrow>
             (case notAvailableFor lc (pContent f) (fullPathOf parentPath name) of
                Inl e \<Rightarrow> Inl e
              | Inr skip \<Rightarrow>
                  if skip then Inr []
                  else Inr [notInSchema idn (fullPathOf parentPath name) (pLine f)])
         | Some schemaProperty \<Rightarrow>
             if pBlock f then Inr []
             else if nonEmpty nested then
               (case Nested schemaProperty of
                  Some ns \<Rightarrow>
                    checkMissingInSchema lc idn resourceType (fullPathOf parentPath name)
                      nested ns
                | None \<Rightarrow> Inr [])
             else Inr []))"

text \<open>
  \<^verbatim>\<open>S006.Run\<close> on the parts of \<^verbatim>\<open>TerraformNodeData\<close> that it reads.
\<close>

datatype ResourceType = ResourceTypeResource | ResourceTypeData

record TerraformNodeData =
  ndName :: string
  ndType :: ResourceType
  ndDocumentExists :: bool
  ndSchemaProperties :: "Properties option"
  ndDocumentArguments :: "Properties option"

definition S006_Run :: "(nat \<Rightarrow> nat) \<Rightarrow> string \<Rightarrow> TerraformNodeData \<Rightarrow> panic + string list" where
  "S006_Run lc idn d =
     (if \<not> ndDocumentExists d then Inr []
      else if ndType d = ResourceTypeData then Inr []
      else
        (case (ndSchemaProperties d, ndDocumentArguments d) of
           (Some schema, Some doc) \<Rightarrow>
             (case checkMissingInSchema lc idn (ndName d) [] (Some doc) schema of
                Inl e \<Rightarrow> Inl e
              | Inr errs \<Rightarrow>
                  Inr (checkMissingInDoc idn (ndName d) [] (Some schema) doc @ errs))
         | _ \<Rightarrow> Inr []))"

section \<open>Package rule: the levels that S006 visits\<close>

text \<open>
  \<^verbatim>\<open>checkMissingInDoc\<close> calls itself on the nested trees of a property of the schema
  that it does not skip, that the documentation holds, and whose nested objects are not
  empty on either side; the parent path of the call is the full path of that property.
  \<open>descend names path schema documentation\<close> follows a chain of names in this way and
  returns the path and the two trees of the call that is reached, or \<open>None\<close> when the rule
  does not go down the chain.
\<close>

fun descend ::
  "string list \<Rightarrow> string \<Rightarrow> Properties \<Rightarrow> Properties \<Rightarrow> (string \<times> Properties \<times> Properties) option" where
  "descend [] path schema documentation = Some (path, schema, documentation)"
| "descend (name # names) path schema documentation =
     (case map_of (Objects schema) name of
        None \<Rightarrow> None
      | Some property \<Rightarrow>
          (case map_of (Objects documentation) name of
             None \<Rightarrow> None
           | Some docProperty \<Rightarrow>
               if (\<not> pOptional (flds property) \<and> pComputed (flds property)) \<or> name = ''id''
                  \<or> pDeprecated (flds property)
               then None
               else
                 (case Nested property of
                    None \<Rightarrow> None
                  | Some nested \<Rightarrow>
                      (case Nested docProperty of
                         None \<Rightarrow> None
                       | Some nd \<Rightarrow>
                           if 0 < length (Objects nested) \<and> 0 < length (Objects nd)
                           then descend names (fullPathOf path name) nested nd
                           else None))))"

section \<open>The reading of a pattern\<close>

text \<open>
  \<open>consumes r i s j t\<close>: from offset \<open>i\<close>, where the text \<open>s\<close> remains, the pattern \<open>r\<close>
  can take a prefix of \<open>s\<close> and leave \<open>t\<close> at offset \<open>j\<close>. As in \<open>rmatch\<close>, an iteration of
  a repetition takes at least one byte. A continuation is \<open>blind\<close> when the groups it
  receives do not decide whether it succeeds.
\<close>

inductive consumes :: "rx \<Rightarrow> nat \<Rightarrow> string \<Rightarrow> nat \<Rightarrow> string \<Rightarrow> bool" where
  c_Eps: "consumes Eps i s i s"
| c_Ch: "consumes (Ch x) i (x # s) (Suc i) s"
| c_In: "in_ranges y rs \<Longrightarrow> consumes (In rs) i (y # s) (Suc i) s"
| c_NotIn: "\<not> in_ranges y rs \<Longrightarrow> consumes (NotIn rs) i (y # s) (Suc i) s"
| c_Bol: "consumes Bol 0 s 0 s"
| c_Eol: "consumes Eol i [] i []"
| c_Cat: "consumes a i s j t \<Longrightarrow> consumes b j t k u \<Longrightarrow> consumes (Cat a b) i s k u"
| c_AltL: "consumes a i s j t \<Longrightarrow> consumes (Alt a b) i s j t"
| c_AltR: "consumes b i s j t \<Longrightarrow> consumes (Alt a b) i s j t"
| c_Star0: "consumes (Star a) i s i s"
| c_StarS: "consumes a i s j t \<Longrightarrow> length t < length s \<Longrightarrow> consumes (Star a) j t k u
            \<Longrightarrow> consumes (Star a) i s k u"
| c_Lazy0: "consumes (StarLazy a) i s i s"
| c_LazyS: "consumes a i s j t \<Longrightarrow> length t < length s \<Longrightarrow> consumes (StarLazy a) j t k u
            \<Longrightarrow> consumes (StarLazy a) i s k u"
| c_Grp: "consumes a i s j t \<Longrightarrow> consumes (Grp n a) i s j t"

abbreviation blind :: "(nat \<Rightarrow> string \<Rightarrow> caps \<Rightarrow> 'a option) \<Rightarrow> bool" where
  "blind k \<equiv> (\<forall>i s c c'. (k i s c = None) = (k i s c' = None))"

section \<open>Clauses of quoted values\<close>

text \<open>
  The text of an enum clause: each value \<open>v\<close> stands between back quotes after a text
  \<open>sep\<close> (the phrase for the first value, the separator for the others). In a clause that
  is \<open>clauseOk\<close> no \<open>sep\<close> holds a back quote or a period and every value is non-empty and
  free of back quotes; a value may hold periods. \<open>clauseSpans i toks\<close> are the offsets of
  the quoted values when the clause starts at offset \<open>i\<close>, \<open>tw s\<close> is the number of bytes
  of \<open>s\<close> before its first period, and \<open>NB\<close> is the class \<^verbatim>\<open>[^`]\<close>.
\<close>

fun clause :: "(string \<times> string) list \<Rightarrow> string" where
  "clause [] = []"
| "clause ((sep, v) # toks) = sep @ [CHR 0x60] @ v @ [CHR 0x60] @ clause toks"





section \<open>Example lines outside ASCII\<close>

text \<open>
  A field line whose name is seventeen times the letter \<^verbatim>\<open>U+023A\<close> (bytes \<^verbatim>\<open>C8 BA\<close>),
  and the same line with every one of them replaced by \<^verbatim>\<open>U+2C65\<close> (bytes
  \<^verbatim>\<open>E2 B1 A5\<close>) and \<^verbatim>\<open>One\<close> lowered.
\<close>

definition strokeLine :: string where
  "strokeLine = ''* `'' @
    [CHR 0xC8, CHR 0xBA, CHR 0xC8, CHR 0xBA, CHR 0xC8, CHR 0xBA, CHR 0xC8, CHR 0xBA,
     CHR 0xC8, CHR 0xBA, CHR 0xC8, CHR 0xBA, CHR 0xC8, CHR 0xBA, CHR 0xC8, CHR 0xBA,
     CHR 0xC8, CHR 0xBA, CHR 0xC8, CHR 0xBA, CHR 0xC8, CHR 0xBA, CHR 0xC8, CHR 0xBA,
     CHR 0xC8, CHR 0xBA, CHR 0xC8, CHR 0xBA, CHR 0xC8, CHR 0xBA, CHR 0xC8, CHR 0xBA,
     CHR 0xC8, CHR 0xBA] @ ''` - One `b` block as below''"

definition strokeLower :: string where
  "strokeLower = ''* `'' @
    [CHR 0xE2, CHR 0xB1, CHR 0xA5, CHR 0xE2, CHR 0xB1, CHR 0xA5, CHR 0xE2, CHR 0xB1, CHR 0xA5,
     CHR 0xE2, CHR 0xB1, CHR 0xA5, CHR 0xE2, CHR 0xB1, CHR 0xA5, CHR 0xE2, CHR 0xB1, CHR 0xA5,
     CHR 0xE2, CHR 0xB1, CHR 0xA5, CHR 0xE2, CHR 0xB1, CHR 0xA5, CHR 0xE2, CHR 0xB1, CHR 0xA5,
     CHR 0xE2, CHR 0xB1, CHR 0xA5, CHR 0xE2, CHR 0xB1, CHR 0xA5, CHR 0xE2, CHR 0xB1, CHR 0xA5,
     CHR 0xE2, CHR 0xB1, CHR 0xA5, CHR 0xE2, CHR 0xB1, CHR 0xA5, CHR 0xE2, CHR 0xB1, CHR 0xA5,
     CHR 0xE2, CHR 0xB1, CHR 0xA5, CHR 0xE2, CHR 0xB1, CHR 0xA5] @ ''` - one `b` block as below''"

section \<open>Example trees and documents\<close>

text \<open>
  A schema with a required field \<open>name\<close> and a required block \<open>identity\<close> whose nested
  tree holds \<open>type\<close>, and a documentation tree that has both names, \<open>identity\<close> as a
  plain field without nested content.
\<close>

definition exampleSchema :: Properties where
  "exampleSchema =
     Properties [''name'', ''identity'']
       [(''name'', Property (zeroFields\<lparr>pName := ''name'', pRequired := True\<rparr>) None None),
        (''identity'',
         Property (zeroFields\<lparr>pName := ''identity'', pRequired := True, pBlock := True\<rparr>)
           (Some (Properties [''type'']
                    [(''type'',
                      Property (zeroFields\<lparr>pName := ''type'', pRequired := True\<rparr>) None None)]))
           None)]"

definition exampleDoc :: Properties where
  "exampleDoc =
     Properties [''name'', ''identity'']
       [(''name'',
         Property (zeroFields\<lparr>pName := ''name'', pRequired := True, pLine := 2,
                     pContent := ''* `name` - (Required) The name of the resource.''\<rparr>)
           None None),
        (''identity'',
         Property (zeroFields\<lparr>pName := ''identity'', pRequired := True, pLine := 4,
                     pContent := ''* `identity` - (Required) The identity of the resource.''\<rparr>)
           None None)]"

text \<open>
  A schema and a documentation with two levels of blocks, \<open>network\<close> and \<open>subnet\<close>: the
  schema of \<open>subnet\<close> holds an optional \<open>location\<close> and a deprecated \<open>old\<close>, its
  documentation holds \<open>name\<close> only.
\<close>

definition networkSchema :: Properties where
  "networkSchema =
     Properties [''network'']
       [(''network'',
         Property (zeroFields\<lparr>pName := ''network'', pOptional := True, pBlock := True\<rparr>)
           (Some (Properties [''subnet'']
              [(''subnet'',
                Property (zeroFields\<lparr>pName := ''subnet'', pOptional := True, pBlock := True\<rparr>)
                  (Some (Properties [''location'', ''old'']
                     [(''location'',
                       Property (zeroFields\<lparr>pName := ''location'', pOptional := True\<rparr>) None None),
                      (''old'',
                       Property (zeroFields\<lparr>pName := ''old'', pOptional := True,
                                   pDeprecated := True\<rparr>) None None)]))
                  None)]))
           None)]"

definition networkDoc :: Properties where
  "networkDoc =
     Properties [''network'']
       [(''network'',
         Property (zeroFields\<lparr>pName := ''network'', pOptional := True, pBlock := True\<rparr>)
           (Some (Properties [''subnet'']
              [(''subnet'',
                Property (zeroFields\<lparr>pName := ''subnet'', pOptional := True, pBlock := True\<rparr>)
                  (Some (Properties [''name'']
                     [(''name'',
                       Property (zeroFields\<lparr>pName := ''name'', pOptional := True\<rparr>) None None)]))
                  None)]))
           None)]"

text \<open>
  The three lines of a block and its reference: the head of the block's section, the one
  field of its body, and the field of the parent that refers to the block. The fields and
  entries that \<^verbatim>\<open>ParseFields\<close> builds from them are named here; that it builds them is
  proved below.
\<close>

definition headLine :: string where
  "headLine = ''An `identity` block supports the following:''"

definition typeLine :: string where
  "typeLine = ''* `type` - (Required) The type of identity.''"

definition refLine :: string where
  "refLine = ''* `identity` - (Optional) An `identity` block as defined below.''"

definition typeField :: "int \<Rightarrow> ParsedField" where
  "typeField n = (newField typeLine PosArgs n)
     \<lparr>Name := ''type'', RequiredStatus := RequiredRequired, Required := True\<rparr>"

definition refField :: "int \<Rightarrow> ParsedField" where
  "refField n = (newField refLine PosArgs n)
     \<lparr>Name := ''identity'', RequiredStatus := RequiredOptional, Optional := True,
      GuessEnums := [''identity''], Block := True, BlockTypeName := ''identity''\<rparr>"

definition typeProp :: "int \<Rightarrow> ParsedProperty" where
  "typeProp n = ParsedProperty (typeField n) zeroRest None None"

definition defProp :: "int \<Rightarrow> int \<Rightarrow> ParsedProperty" where
  "defProp n m = ParsedProperty
     ((newField headLine PosArgs n)\<lparr>Name := ''identity'', Block := True, BlockTypeName := ''identity''\<rparr>)
     zeroRest (Some (ParsedProperties [''type''] [(''type'', typeProp m)])) None"

definition refProp :: "int \<Rightarrow> ParsedProperty" where
  "refProp n = ParsedProperty (refField n) zeroRest (Some (ParsedProperties [] [])) None"

text \<open>The names of the nested tree that a linked tree holds under a name.\<close>

definition nestedNames ::
  "panic + Properties option option \<Rightarrow> string \<Rightarrow> string list option" where
  "nestedNames tree name =
     (case tree of
        Inr (Some (Some ps)) \<Rightarrow>
          (case map_of (Objects ps) name of
             Some p \<Rightarrow> (case Nested p of Some n \<Rightarrow> Some (Names n) | None \<Rightarrow> None)
           | None \<Rightarrow> None)
      | _ \<Rightarrow> None)"

section \<open>Evaluation and helper lemmas\<close>

declare rsearch.simps [simp del] rfindall.simps [simp del]

lemmas string_defs = HasPrefix.simps IndexFrom.simps Index_def Contains_def sliceFrom_def slice_def
  Trim_def TrimSpace_def asciiSpace_def byte_def RuneError_def cont_def EncodeRune_def
  asciiLower_def ToLower_def char_of_def bit_Suc_0_iff Let_def

lemmas regex_defs = rsearch.simps rfindall.simps Opt_def Plus_def Dot_def one_def none_of_def
  MatchString_def group_text_def groups.simps FindStringSubmatch_def FindAllStringIndex_def FindAllString_def
  word_class_def fieldReg_def codeReg_def blockHeadReg_def blockTypeReg_def DefaultsReg_def
  ForceNewReg_def partForceNewReg_def blockPropReg_def

lemmas field_defs = getDefaultValue_def isForceNew_def FirstCodeValue_def guessBlockProperty_def
  extractBlockTypeName_def quoteSet_def AddEnum_def SetGuessEnums_def enumSeps_def
  possibleValueSep_def multipleSectionsError_def extractPossibleValues_def newField_def
  setRequired_def setEnums_def setBlock_def setName_def ExtractFieldFromLine_def
  RequiredRequired_def RequiredOptional_def PosArgs_def

lemma enumLoop_keeps:
  "enumLoop subStr sepIdx spans pe enums field = Inr (es, f') \<Longrightarrow>
     ParseErrors f' = ParseErrors field \<and> DefaultValue f' = DefaultValue field"
proof (induction spans arbitrary: pe enums field)
  case Nil
  then show ?case by simp
next
  case (Cons sp spans)
  obtain start "end" where sp: "sp = (start, end)" by (cases sp)
  from Cons.prems show ?case
    unfolding sp
    by (auto simp: Let_def split: sum.splits if_splits dest!: Cons.IH)
qed

lemma extractPossibleValues_keeps:
  assumes "extractPossibleValues lc line field = Inr (es, f')"
  shows "DefaultValue f' = DefaultValue field
         \<and> (ParseErrors f' = ParseErrors field
            \<or> ParseErrors f' = ParseErrors field @ [multipleSectionsError])"
  using assms
  by (auto simp: extractPossibleValues_def Let_def split: sum.splits if_splits prod.splits
      dest!: enumLoop_keeps)

lemma setEnums_keeps:
  assumes "setEnums lc line res field = Inr f'"
  shows "DefaultValue f' = DefaultValue field
         \<and> (ParseErrors f' = ParseErrors field
            \<or> ParseErrors f' = ParseErrors field @ [multipleSectionsError])"
proof (cases "3 < length res")
  case False
  with assms show ?thesis by (simp add: setEnums_def)
next
  case True
  with assms obtain enums f1 where e: "extractPossibleValues lc line field = Inr (enums, f1)"
    by (auto simp: setEnums_def split: sum.splits)
  from assms True e have "ParseErrors f' = ParseErrors f1 \<and> DefaultValue f' = DefaultValue f1"
    by (auto simp: setEnums_def Let_def AddEnum_def SetGuessEnums_def split: if_splits)
  with extractPossibleValues_keeps [OF e] show ?thesis by simp
qed

lemma setRequired_keeps:
  "ParseErrors (setRequired line res field) = ParseErrors field"
  "DefaultValue (setRequired line res field) = DefaultValue field"
  by (simp_all add: setRequired_def)

lemma setBlock_keeps:
  assumes "setBlock lc line field = Inr f'"
  shows "ParseErrors f' = ParseErrors field \<and> DefaultValue f' = DefaultValue field"
  using assms by (auto simp: setBlock_def split: sum.splits if_splits)

lemma setName_keeps:
  "setName line res field = Inr g \<Longrightarrow>
     ParseErrors g = ParseErrors field \<and> DefaultValue g = DefaultValue field"
  "setName line res field = Inl g \<Longrightarrow>
     ParseErrors g = ParseErrors field @ [''no field name found'']
     \<and> DefaultValue g = DefaultValue field \<and> Name g = []"
  by (auto simp: setName_def Let_def split: if_splits)

lemma ExtractFieldFromLine_errors:
  assumes "ExtractFieldFromLine lc line pos n = Inr f"
  shows "set (ParseErrors f)
           \<subseteq> {''no field name found'', ''field name is empty'', multipleSectionsError}
    \<and> DefaultValue f = (if getDefaultValue line \<noteq> [] then Some (getDefaultValue line) else None)"
proof -
  define res where "res = FindStringSubmatch fieldReg line"
  define f2 where "f2 = (if getDefaultValue line \<noteq> []
     then (newField line pos n)\<lparr>DefaultValue := Some (getDefaultValue line)\<rparr>
     else newField line pos n)\<lparr>ForceNew := isForceNew line\<rparr>"
  have f2: "ParseErrors f2 = []"
    "DefaultValue f2 = (if getDefaultValue line \<noteq> [] then Some (getDefaultValue line) else None)"
    by (simp_all add: f2_def newField_def)
  show ?thesis
  proof (cases "setName line res f2")
    case (Inl early)
    with assms have "f = early"
      by (simp add: ExtractFieldFromLine_def Let_def res_def f2_def)
    with setName_keeps(2) [OF Inl] f2 show ?thesis by simp
  next
    case (Inr f3)
    define f4 where "f4 = (if Name f3 = []
                       then f3\<lparr>ParseErrors := ParseErrors f3 @ [''field name is empty'']\<rparr>
                       else f3)"
    from Inr assms obtain f5 where
      s5: "setEnums lc line res (setRequired line res f4) = Inr f5" and
      s6: "setBlock lc line f5 = Inr f"
      by (auto simp: ExtractFieldFromLine_def Let_def res_def f2_def f4_def
          split: sum.splits)
    have f4: "DefaultValue f4 = DefaultValue f2"
      "ParseErrors f4 = [] \<or> ParseErrors f4 = [''field name is empty'']"
      using f2 setName_keeps(1) [OF Inr] by (auto simp: f4_def)
    from setEnums_keeps [OF s5] setBlock_keeps [OF s6] f4 f2
    show ?thesis by (auto simp: setRequired_keeps)
  qed
qed

lemma getDefaultValue_no_match:
  "\<not> MatchString DefaultsReg line \<Longrightarrow> getDefaultValue line = []"
  by (auto simp: getDefaultValue_def MatchString_def FindStringSubmatch_def split: option.splits)

lemma extract_name_line:
  "ExtractFieldFromLine lc ''* `name` - (Required) The name of the resource.'' PosArgs 1 =
     Inr \<lparr>Name = ''name'', Line = 1, Position = 2, RequiredStatus = 4, Required = True,
          Optional = False, Content = ''* `name` - (Required) The name of the resource.'',
          DefaultValue = None, ForceNew = False, PossibleValues = [], GuessEnums = [],
          EnumStart = 0, EnumEnd = 0, ParseErrors = [], Block = False, BlockTypeName = []\<rparr>"
  by (simp add: string_defs regex_defs field_defs)

section \<open>Patterns: what a search finds\<close>

text \<open>
  A search with a blind continuation succeeds exactly when the pattern can take a prefix
  after which the continuation succeeds; so \<open>MatchString\<close> holds exactly when the text
  has a suffix of which the pattern can take a prefix.
\<close>

inductive_simps consumes_Eps [simp]: "consumes Eps i s j t"
inductive_simps consumes_Ch [simp]: "consumes (Ch x) i s j t"
inductive_simps consumes_In [simp]: "consumes (In rs) i s j t"
inductive_simps consumes_NotIn [simp]: "consumes (NotIn rs) i s j t"
inductive_simps consumes_Bol [simp]: "consumes Bol i s j t"
inductive_simps consumes_Eol [simp]: "consumes Eol i s j t"
inductive_simps consumes_Cat [simp]: "consumes (Cat a b) i s j t"
inductive_simps consumes_Alt [simp]: "consumes (Alt a b) i s j t"
inductive_simps consumes_Grp [simp]: "consumes (Grp n a) i s j t"
inductive_simps consumes_Star: "consumes (Star a) i s j t"
inductive_simps consumes_StarLazy: "consumes (StarLazy a) i s j t"

lemma rmatch_consumes:
  "blind k \<Longrightarrow>
     (rmatch r i s c k \<noteq> None) = (\<exists>j t. consumes r i s j t \<and> k j t c \<noteq> None)"
proof (induction r i s c k rule: rmatch.induct)
  case (1 i s c k)
  then show ?case by simp
next
  case (2 x i s c k)
  then show ?case by (cases s) auto
next
  case (3 rs i s c k)
  then show ?case by (cases s) auto
next
  case (4 rs i s c k)
  then show ?case by (cases s) auto
next
  case (5 i s c k)
  then show ?case by auto
next
  case (6 i s c k)
  then show ?case by auto
next
  case (7 a b i s c k)
  have ih2: "\<And>i' s' c'. (rmatch b i' s' c' k \<noteq> None)
               = (\<exists>j t. consumes b i' s' j t \<and> k j t c' \<noteq> None)"
    using "7.IH"(1) "7.prems" by blast
  have bl: "blind (\<lambda>i' s' c'. rmatch b i' s' c' k)"
  proof (intro allI)
    fix i' s' c1 c2
    have "(rmatch b i' s' c1 k \<noteq> None) = (rmatch b i' s' c2 k \<noteq> None)"
      unfolding ih2 using \<open>blind k\<close> by metis
    then show "(rmatch b i' s' c1 k = None) = (rmatch b i' s' c2 k = None)" by blast
  qed
  have "(rmatch (Cat a b) i s c k \<noteq> None)
          = (rmatch a i s c (\<lambda>i' s' c'. rmatch b i' s' c' k) \<noteq> None)"
    by simp
  also have "\<dots> = (\<exists>j t. consumes a i s j t \<and> rmatch b j t c k \<noteq> None)"
    by (rule "7.IH"(2) [OF bl])
  also have "\<dots> = (\<exists>j t. consumes a i s j t
                        \<and> (\<exists>j' t'. consumes b j t j' t' \<and> k j' t' c \<noteq> None))"
    unfolding ih2 ..
  also have "\<dots> = (\<exists>j t. consumes (Cat a b) i s j t \<and> k j t c \<noteq> None)"
    unfolding consumes_Cat by blast
  finally show ?case .
next
  case (8 a b i s c k)
  show ?case
  proof (cases "rmatch a i s c k")
    case None
    with 8 show ?thesis by auto
  next
    case (Some r)
    with 8 show ?thesis by auto
  qed
next
  case (9 a i s c k)
  let ?k = "\<lambda>i' s' c'. if length s' < length s then rmatch (Star a) i' s' c' k else None"
  have ih2: "\<And>i' s' c'. length s' < length s \<Longrightarrow>
      (rmatch (Star a) i' s' c' k \<noteq> None)
        = (\<exists>j t. consumes (Star a) i' s' j t \<and> k j t c' \<noteq> None)"
    using "9.IH"(1) "9.prems" by blast
  have bl: "blind ?k"
  proof (intro allI)
    fix i' s' c1 c2
    show "(?k i' s' c1 = None) = (?k i' s' c2 = None)"
    proof (cases "length s' < length s")
      case True
      have "(rmatch (Star a) i' s' c1 k \<noteq> None) = (rmatch (Star a) i' s' c2 k \<noteq> None)"
        unfolding ih2 [OF True] using \<open>blind k\<close> by metis
      with True show ?thesis by auto
    next
      case False
      then show ?thesis by simp
    qed
  qed
  have ih1: "(rmatch a i s c ?k \<noteq> None) = (\<exists>j t. consumes a i s j t \<and> ?k j t c \<noteq> None)"
    using "9.IH"(2) [OF bl] .
  have step: "(?k j t c \<noteq> None)
      = (length t < length s
         \<and> (\<exists>j' t'. consumes (Star a) j t j' t' \<and> k j' t' c \<noteq> None))" for j t
  proof (cases "length t < length s")
    case True
    then have e: "?k j t c = rmatch (Star a) j t c k" by (simp only: if_True)
    show ?thesis unfolding e ih2 [OF True] using True by blast
  next
    case False
    then have e: "?k j t c = None" by (simp only: if_False)
    show ?thesis unfolding e using False by blast
  qed
  have "(rmatch (Star a) i s c k \<noteq> None) = (rmatch a i s c ?k \<noteq> None \<or> k i s c \<noteq> None)"
    by (auto split: option.splits)
  also have "\<dots> = ((\<exists>j t. consumes a i s j t \<and> length t < length s
                        \<and> (\<exists>j' t'. consumes (Star a) j t j' t' \<and> k j' t' c \<noteq> None))
                    \<or> k i s c \<noteq> None)"
    unfolding ih1 step by blast
  also have "\<dots> = (\<exists>j t. consumes (Star a) i s j t \<and> k j t c \<noteq> None)"
    by (subst (2) consumes_Star) blast
  finally show ?case .
next
  case (10 a i s c k)
  let ?k = "\<lambda>i' s' c'. if length s' < length s then rmatch (StarLazy a) i' s' c' k else None"
  show ?case
  proof (cases "k i s c")
    case (Some r)
    have "consumes (StarLazy a) i s i s" by (rule c_Lazy0)
    with Some show ?thesis by (simp del: not_None_eq) blast
  next
    case None
    have ih2: "\<And>i' s' c'. length s' < length s \<Longrightarrow>
      (rmatch (StarLazy a) i' s' c' k \<noteq> None)
        = (\<exists>j t. consumes (StarLazy a) i' s' j t \<and> k j t c' \<noteq> None)"
      using "10.IH"(1) [OF None] "10.prems" by blast
    have bl: "blind ?k"
    proof (intro allI)
      fix i' s' c1 c2
      show "(?k i' s' c1 = None) = (?k i' s' c2 = None)"
      proof (cases "length s' < length s")
        case True
        have "(rmatch (StarLazy a) i' s' c1 k \<noteq> None) = (rmatch (StarLazy a) i' s' c2 k \<noteq> None)"
          unfolding ih2 [OF True] using \<open>blind k\<close> by metis
        with True show ?thesis by auto
      next
        case False
        then show ?thesis by simp
      qed
    qed
    have ih1: "(rmatch a i s c ?k \<noteq> None) = (\<exists>j t. consumes a i s j t \<and> ?k j t c \<noteq> None)"
      using "10.IH"(2) [OF None bl] .
    have step: "(?k j t c \<noteq> None)
        = (length t < length s
           \<and> (\<exists>j' t'. consumes (StarLazy a) j t j' t' \<and> k j' t' c \<noteq> None))" for j t
    proof (cases "length t < length s")
      case True
      then have e: "?k j t c = rmatch (StarLazy a) j t c k" by (simp only: if_True)
      show ?thesis unfolding e ih2 [OF True] using True by blast
    next
      case False
      then have e: "?k j t c = None" by (simp only: if_False)
      show ?thesis unfolding e using False by blast
    qed
    have "(rmatch (StarLazy a) i s c k \<noteq> None) = (rmatch a i s c ?k \<noteq> None)"
      using None by simp
    also have "\<dots> = ((\<exists>j t. consumes a i s j t \<and> length t < length s
                        \<and> (\<exists>j' t'. consumes (StarLazy a) j t j' t' \<and> k j' t' c \<noteq> None)))"
      unfolding ih1 step by blast
    also have "\<dots> = (\<exists>j t. consumes (StarLazy a) i s j t \<and> k j t c \<noteq> None)"
    proof -
      have "(\<exists>j t. consumes (StarLazy a) i s j t \<and> k j t c \<noteq> None)
          = (\<exists>j t. (j = i \<and> t = s \<or>
               (\<exists>ja ta. consumes a i s ja ta \<and> length ta < length s
                          \<and> consumes (StarLazy a) ja ta j t)) \<and> k j t c \<noteq> None)"
        by (subst consumes_StarLazy) (rule refl)
      also have "\<dots> = (\<exists>j t. (\<exists>ja ta. consumes a i s ja ta \<and> length ta < length s
                          \<and> consumes (StarLazy a) ja ta j t) \<and> k j t c \<noteq> None)"
        using None by metis
      finally show ?thesis by blast
    qed
    finally show ?thesis .
  qed
next
  case (11 n a i s c k)
  have bl: "blind (\<lambda>i' s' c'. k i' s' ((n, i, i') # c'))"
    using "11.prems" by blast
  have e: "(k j t ((n, i, j) # c) \<noteq> None) = (k j t c \<noteq> None)" for j t
    using "11.prems" [rule_format, of j t "(n, i, j) # c" c] by simp
  have "(rmatch (Grp n a) i s c k \<noteq> None)
          = (rmatch a i s c (\<lambda>i' s' c'. k i' s' ((n, i, i') # c')) \<noteq> None)"
    by simp
  also have "\<dots> = (\<exists>j t. consumes a i s j t \<and> k j t ((n, i, j) # c) \<noteq> None)"
    by (rule "11.IH" [OF bl])
  also have "\<dots> = (\<exists>j t. consumes (Grp n a) i s j t \<and> k j t c \<noteq> None)"
    unfolding e consumes_Grp ..
  finally show ?case .
qed

lemma rsearch_consumes:
  "(rsearch r i s \<noteq> None) = (\<exists>p q j t. s = p @ q \<and> consumes r (i + length p) q j t)"
proof (induction s arbitrary: i)
  case Nil
  have "(rsearch r i [] \<noteq> None) = (rmatch r i [] [] (\<lambda>e s' c. Some (i, e, s', c)) \<noteq> None)"
    by (subst rsearch.simps) (simp split: option.splits)
  also have "\<dots> = (\<exists>j t. consumes r i [] j t)"
    by (subst rmatch_consumes) simp_all
  finally show ?case by simp
next
  case (Cons y ys)
  have "(rsearch r i (y # ys) \<noteq> None)
          = (rmatch r i (y # ys) [] (\<lambda>e s' c. Some (i, e, s', c)) \<noteq> None
             \<or> rsearch r (Suc i) ys \<noteq> None)"
    by (subst rsearch.simps) (simp split: option.splits)
  also have "\<dots> = ((\<exists>j t. consumes r i (y # ys) j t)
                    \<or> (\<exists>p q j t. ys = p @ q \<and> consumes r (Suc i + length p) q j t))"
    unfolding Cons.IH by (subst rmatch_consumes) simp_all
  also have "\<dots> = (\<exists>p q j t. y # ys = p @ q \<and> consumes r (i + length p) q j t)"
  proof
    assume "(\<exists>j t. consumes r i (y # ys) j t)
              \<or> (\<exists>p q j t. ys = p @ q \<and> consumes r (Suc i + length p) q j t)"
    then show "\<exists>p q j t. y # ys = p @ q \<and> consumes r (i + length p) q j t"
    proof
      assume "\<exists>j t. consumes r i (y # ys) j t"
      then obtain j t where "consumes r i (y # ys) j t" by blast
      then have "y # ys = [] @ (y # ys) \<and> consumes r (i + length ([]::string)) (y # ys) j t"
        by simp
      then show ?thesis by blast
    next
      assume "\<exists>p q j t. ys = p @ q \<and> consumes r (Suc i + length p) q j t"
      then obtain p q j t where "ys = p @ q" "consumes r (Suc i + length p) q j t" by blast
      then have "y # ys = (y # p) @ q \<and> consumes r (i + length (y # p)) q j t" by simp
      then show ?thesis by blast
    qed
  next
    assume "\<exists>p q j t. y # ys = p @ q \<and> consumes r (i + length p) q j t"
    then obtain p q j t where a: "y # ys = p @ q" "consumes r (i + length p) q j t" by blast
    show "(\<exists>j t. consumes r i (y # ys) j t)
              \<or> (\<exists>p q j t. ys = p @ q \<and> consumes r (Suc i + length p) q j t)"
    proof (cases p)
      case Nil
      with a show ?thesis by auto
    next
      case (Cons z zs)
      with a have "ys = zs @ q" "consumes r (Suc i + length zs) q j t" by auto
      then show ?thesis by blast
    qed
  qed
  finally show ?case .
qed

lemma MatchString_consumes:
  "MatchString r s = (\<exists>p q j t. s = p @ q \<and> consumes r (length p) q j t)"
  unfolding MatchString_def rsearch_consumes by simp

lemma consumes_lit:
  "consumes (lit w) i s j t = (s = w @ t \<and> j = i + length w)"
  by (induction w arbitrary: i s rule: lit.induct) auto

lemma in_ranges_single: "in_ranges y [(x, x)] = (y = x)"
  by (auto simp: byte_def)

lemma consumes_Star_NotIn:
  "consumes (Star (NotIn [(x, x)])) i s j t = (\<exists>u. s = u @ t \<and> x \<notin> set u \<and> j = i + length u)"
proof
  assume "consumes (Star (NotIn [(x, x)])) i s j t"
  then show "\<exists>u. s = u @ t \<and> x \<notin> set u \<and> j = i + length u"
  proof (induction "Star (NotIn [(x, x)])" i s j t rule: consumes.induct)
    case (c_Star0 i s)
    then show ?case by simp
  next
    case (c_StarS i s j t k u)
    from c_StarS(1) obtain y where y: "s = y # t" "y \<noteq> x" "j = Suc i"
      by (auto simp: in_ranges_single simp del: in_ranges.simps)
    from c_StarS(4) obtain v where "t = v @ u" "x \<notin> set v" "k = j + length v" by blast
    with y have "s = (y # v) @ u \<and> x \<notin> set (y # v) \<and> k = i + length (y # v)" by auto
    then show ?case by blast
  qed
next
  assume "\<exists>u. s = u @ t \<and> x \<notin> set u \<and> j = i + length u"
  then obtain u where "s = u @ t" "x \<notin> set u" "j = i + length u" by blast
  then show "consumes (Star (NotIn [(x, x)])) i s j t"
  proof (induction u arbitrary: i s)
    case Nil
    then show ?case by (simp add: c_Star0)
  next
    case (Cons y u)
    have 1: "consumes (NotIn [(x, x)]) i s (Suc i) (u @ t)"
      using Cons.prems by (auto simp: in_ranges_single simp del: in_ranges.simps)
    have 2: "consumes (Star (NotIn [(x, x)])) (Suc i) (u @ t) j t"
      using Cons.prems by (intro Cons.IH) auto
    show ?case using c_StarS [OF 1 _ 2] Cons.prems by simp
  qed
qed

lemma ex_Cat_lit:
  "(\<exists>j t. consumes (Cat (lit w) r) i s j t)
     = (\<exists>q. s = w @ q \<and> (\<exists>j t. consumes r (i + length w) q j t))"
  unfolding consumes_Cat consumes_lit by blast

lemma ex_Cat_Opt:
  "(\<exists>j t. consumes (Cat (Opt a) r) i s j t)
     = ((\<exists>j t. consumes (Cat a r) i s j t) \<or> (\<exists>j t. consumes r i s j t))"
  unfolding Opt_def consumes_Cat consumes_Alt consumes_Eps by blast

lemma ex_Cat_Ch:
  "(\<exists>j t. consumes (Cat (Ch x) r) i s j t)
     = (\<exists>q. s = x # q \<and> (\<exists>j t. consumes r (Suc i) q j t))"
  unfolding consumes_Cat consumes_Ch by blast

lemma ex_Cat_Star_NotIn:
  "(\<exists>j t. consumes (Cat (Star (NotIn [(x, x)])) r) i s j t)
     = (\<exists>u q. s = u @ q \<and> x \<notin> set u \<and> (\<exists>j t. consumes r (i + length u) q j t))"
  unfolding consumes_Cat consumes_Star_NotIn by blast

lemma ex_clause_end:
  "\<exists>j t. consumes (Cat (Star (NotIn [(CHR ''.'', CHR ''.'')])) (Grp 1 (Alt (Ch CHR ''.'') Eol)))
            i s j t"
proof -
  let ?u = "takeWhile (\<lambda>c. c \<noteq> CHR ''.'') s" and ?q = "dropWhile (\<lambda>c. c \<noteq> CHR ''.'') s"
  have s: "s = ?u @ ?q" by simp
  have u: "CHR ''.'' \<notin> set ?u" by (auto dest: set_takeWhileD)
  have "?q = [] \<or> (\<exists>q'. ?q = CHR ''.'' # q')"
  proof (cases ?q)
    case Nil
    then show ?thesis by simp
  next
    case (Cons y ys)
    then have "\<not> (y \<noteq> CHR ''.'')" by (simp add: dropWhile_eq_Cons_conv)
    with Cons show ?thesis by simp
  qed
  then have "\<exists>j t. consumes (Grp 1 (Alt (Ch CHR ''.'') Eol)) (i + length ?u) ?q j t"
    by auto
  with s u show ?thesis
    unfolding ex_Cat_Star_NotIn by blast
qed



section \<open>Force-new detection\<close>

text \<open>
  The two patterns of \<^verbatim>\<open>isForceNew\<close> without the parts that every text satisfies: the
  optional space in front, and \<^verbatim>\<open>[^.]*(\.|$)\<close> at the end, which takes the text up to
  the next period or to the end of the line.
\<close>

lemma ForceNewReg_at:
  "(\<exists>j t. consumes ForceNewReg i s j t)
     = (\<exists>m q. CHR 0x0A \<notin> set m
          \<and> (s = ''Changing'' @ m @ ''force a '' @ q \<or> s = ''Changing'' @ m @ ''forces a '' @ q
             \<or> s = '' Changing'' @ m @ ''force a '' @ q
             \<or> s = '' Changing'' @ m @ ''forces a '' @ q))"
proof -
  define r6 where "r6 = Cat (Star (NotIn [(CHR ''.'', CHR ''.'')])) (Grp 1 (Alt (Ch CHR ''.'') Eol))"
  define r5 where "r5 = Cat (lit '' a '') r6"
  define r4 where "r4 = Cat (Opt (Ch CHR ''s'')) r5"
  define r3 where "r3 = Cat (lit ''force'') r4"
  define r2 where "r2 = Cat (Star (NotIn [(CHR 0x0A, CHR 0x0A)])) r3"
  define r1 where "r1 = Cat (lit ''Changing'') r2"
  have r0: "ForceNewReg = Cat (Opt (Ch CHR '' '')) r1"
    unfolding ForceNewReg_def r1_def r2_def r3_def r4_def r5_def r6_def Dot_def none_of_def
    by (simp del: lit.simps)
  have e6: "\<exists>j t. consumes r6 i s j t" for i s
    unfolding r6_def by (rule ex_clause_end)
  have e5: "(\<exists>j t. consumes r5 i s j t) = (\<exists>q. s = '' a '' @ q)" for i s
    unfolding r5_def ex_Cat_lit using e6 by simp
  have e4: "(\<exists>j t. consumes r4 i s j t) = (\<exists>q. s = '' a '' @ q \<or> s = ''s a '' @ q)" for i s
    unfolding r4_def ex_Cat_Opt ex_Cat_Ch e5 by auto
  have e3: "(\<exists>j t. consumes r3 i s j t) = (\<exists>q. s = ''force a '' @ q \<or> s = ''forces a '' @ q)"
    for i s
    unfolding r3_def ex_Cat_lit e4 by auto
  have e2: "(\<exists>j t. consumes r2 i s j t)
      = (\<exists>m q. CHR 0x0A \<notin> set m \<and> (s = m @ ''force a '' @ q \<or> s = m @ ''forces a '' @ q))"
    for i s
    unfolding r2_def ex_Cat_Star_NotIn e3 by auto
  have e1: "(\<exists>j t. consumes r1 i s j t)
      = (\<exists>m q. CHR 0x0A \<notin> set m
           \<and> (s = ''Changing'' @ m @ ''force a '' @ q \<or> s = ''Changing'' @ m @ ''forces a '' @ q))"
    for i s
    unfolding r1_def ex_Cat_lit e2 by auto
  show ?thesis
    unfolding r0 ex_Cat_Opt ex_Cat_Ch e1 by auto
qed


lemma partForceNewReg_at:
  "(\<exists>j t. consumes partForceNewReg i s j t)
     = (\<exists>m x q. CHR 0x0A \<notin> set m \<and> CHR ''.'' \<notin> set x
          \<and> (s = ''Changing'' @ m @ ''force a '' @ x @ '' created when '' @ q
             \<or> s = ''Changing'' @ m @ ''forces a '' @ x @ '' created when '' @ q
             \<or> s = '' Changing'' @ m @ ''force a '' @ x @ '' created when '' @ q
             \<or> s = '' Changing'' @ m @ ''forces a '' @ x @ '' created when '' @ q))"
proof -
  define r8 where "r8 = Cat (Star (NotIn [(CHR ''.'', CHR ''.'')])) (Grp 1 (Alt (Ch CHR ''.'') Eol))"
  define r7 where "r7 = Cat (lit '' created when '') r8"
  define r6 where "r6 = Cat (Star (NotIn [(CHR ''.'', CHR ''.'')])) r7"
  define r5 where "r5 = Cat (lit '' a '') r6"
  define r4 where "r4 = Cat (Opt (Ch CHR ''s'')) r5"
  define r3 where "r3 = Cat (lit ''force'') r4"
  define r2 where "r2 = Cat (Star (NotIn [(CHR 0x0A, CHR 0x0A)])) r3"
  define r1 where "r1 = Cat (lit ''Changing'') r2"
  have r0: "partForceNewReg = Cat (Opt (Ch CHR '' '')) r1"
    unfolding partForceNewReg_def r1_def r2_def r3_def r4_def r5_def r6_def r7_def r8_def
      Dot_def none_of_def
    by (simp del: lit.simps)
  have e8: "\<exists>j t. consumes r8 i s j t" for i s
    unfolding r8_def by (rule ex_clause_end)
  have e7: "(\<exists>j t. consumes r7 i s j t) = (\<exists>q. s = '' created when '' @ q)" for i s
    unfolding r7_def ex_Cat_lit using e8 by simp
  have e6: "(\<exists>j t. consumes r6 i s j t)
      = (\<exists>x q. CHR ''.'' \<notin> set x \<and> s = x @ '' created when '' @ q)" for i s
    unfolding r6_def ex_Cat_Star_NotIn e7 by auto
  have e5: "(\<exists>j t. consumes r5 i s j t)
      = (\<exists>x q. CHR ''.'' \<notin> set x \<and> s = '' a '' @ x @ '' created when '' @ q)" for i s
    unfolding r5_def ex_Cat_lit e6 by auto
  have e4: "(\<exists>j t. consumes r4 i s j t)
      = (\<exists>x q. CHR ''.'' \<notin> set x
           \<and> (s = '' a '' @ x @ '' created when '' @ q
              \<or> s = ''s a '' @ x @ '' created when '' @ q))" for i s
    unfolding r4_def ex_Cat_Opt ex_Cat_Ch e5 by auto
  have e3: "(\<exists>j t. consumes r3 i s j t)
      = (\<exists>x q. CHR ''.'' \<notin> set x
           \<and> (s = ''force a '' @ x @ '' created when '' @ q
              \<or> s = ''forces a '' @ x @ '' created when '' @ q))" for i s
    unfolding r3_def ex_Cat_lit e4 by auto
  have e2: "(\<exists>j t. consumes r2 i s j t)
      = (\<exists>m x q. CHR 0x0A \<notin> set m \<and> CHR ''.'' \<notin> set x
           \<and> (s = m @ ''force a '' @ x @ '' created when '' @ q
              \<or> s = m @ ''forces a '' @ x @ '' created when '' @ q))" for i s
    unfolding r2_def ex_Cat_Star_NotIn e3 by auto
  have e1: "(\<exists>j t. consumes r1 i s j t)
      = (\<exists>m x q. CHR 0x0A \<notin> set m \<and> CHR ''.'' \<notin> set x
           \<and> (s = ''Changing'' @ m @ ''force a '' @ x @ '' created when '' @ q
              \<or> s = ''Changing'' @ m @ ''forces a '' @ x @ '' created when '' @ q))" for i s
    unfolding r1_def ex_Cat_lit e2 by auto
  show ?thesis
    unfolding r0 ex_Cat_Opt ex_Cat_Ch e1 by auto
qed

lemma MatchString_ForceNewReg:
  "MatchString ForceNewReg line
     = (\<exists>p m q. CHR 0x0A \<notin> set m
          \<and> (line = p @ ''Changing'' @ m @ ''force a '' @ q
             \<or> line = p @ ''Changing'' @ m @ ''forces a '' @ q))"
proof
  assume "MatchString ForceNewReg line"
  then obtain p s j t where l: "line = p @ s" and "consumes ForceNewReg (length p) s j t"
    unfolding MatchString_consumes by blast
  then have "\<exists>j t. consumes ForceNewReg (length p) s j t" by blast
  then obtain m q where m: "CHR 0x0A \<notin> set m"
    and c: "s = ''Changing'' @ m @ ''force a '' @ q \<or> s = ''Changing'' @ m @ ''forces a '' @ q
             \<or> s = '' Changing'' @ m @ ''force a '' @ q
             \<or> s = '' Changing'' @ m @ ''forces a '' @ q"
    unfolding ForceNewReg_at by blast
  from c have "line = p @ ''Changing'' @ m @ ''force a '' @ q
      \<or> line = p @ ''Changing'' @ m @ ''forces a '' @ q
      \<or> line = (p @ '' '') @ ''Changing'' @ m @ ''force a '' @ q
      \<or> line = (p @ '' '') @ ''Changing'' @ m @ ''forces a '' @ q"
    unfolding l by auto
  with m show "\<exists>p m q. CHR 0x0A \<notin> set m
          \<and> (line = p @ ''Changing'' @ m @ ''force a '' @ q
             \<or> line = p @ ''Changing'' @ m @ ''forces a '' @ q)"
    by blast
next
  assume "\<exists>p m q. CHR 0x0A \<notin> set m
          \<and> (line = p @ ''Changing'' @ m @ ''force a '' @ q
             \<or> line = p @ ''Changing'' @ m @ ''forces a '' @ q)"
  then obtain p m q where m: "CHR 0x0A \<notin> set m"
    and c: "line = p @ (''Changing'' @ m @ ''force a '' @ q)
            \<or> line = p @ (''Changing'' @ m @ ''forces a '' @ q)"
    by auto
  from m have "\<exists>j t. consumes ForceNewReg (length p) (''Changing'' @ m @ ''force a '' @ q) j t"
    "\<exists>j t. consumes ForceNewReg (length p) (''Changing'' @ m @ ''forces a '' @ q) j t"
    unfolding ForceNewReg_at by blast+
  with c show "MatchString ForceNewReg line"
    unfolding MatchString_consumes by blast
qed

lemma MatchString_partForceNewReg:
  "MatchString partForceNewReg line
     = (\<exists>p m x q. CHR 0x0A \<notin> set m \<and> CHR ''.'' \<notin> set x
          \<and> (line = p @ ''Changing'' @ m @ ''force a '' @ x @ '' created when '' @ q
             \<or> line = p @ ''Changing'' @ m @ ''forces a '' @ x @ '' created when '' @ q))"
proof
  assume "MatchString partForceNewReg line"
  then obtain p s j t where l: "line = p @ s" and "consumes partForceNewReg (length p) s j t"
    unfolding MatchString_consumes by blast
  then have "\<exists>j t. consumes partForceNewReg (length p) s j t" by blast
  then obtain m x q where m: "CHR 0x0A \<notin> set m" "CHR ''.'' \<notin> set x"
    and c: "s = ''Changing'' @ m @ ''force a '' @ x @ '' created when '' @ q
             \<or> s = ''Changing'' @ m @ ''forces a '' @ x @ '' created when '' @ q
             \<or> s = '' Changing'' @ m @ ''force a '' @ x @ '' created when '' @ q
             \<or> s = '' Changing'' @ m @ ''forces a '' @ x @ '' created when '' @ q"
    unfolding partForceNewReg_at by blast
  from c have "line = p @ ''Changing'' @ m @ ''force a '' @ x @ '' created when '' @ q
      \<or> line = p @ ''Changing'' @ m @ ''forces a '' @ x @ '' created when '' @ q
      \<or> line = (p @ '' '') @ ''Changing'' @ m @ ''force a '' @ x @ '' created when '' @ q
      \<or> line = (p @ '' '') @ ''Changing'' @ m @ ''forces a '' @ x @ '' created when '' @ q"
    unfolding l by auto
  with m show "\<exists>p m x q. CHR 0x0A \<notin> set m \<and> CHR ''.'' \<notin> set x
          \<and> (line = p @ ''Changing'' @ m @ ''force a '' @ x @ '' created when '' @ q
             \<or> line = p @ ''Changing'' @ m @ ''forces a '' @ x @ '' created when '' @ q)"
    by blast
next
  assume "\<exists>p m x q. CHR 0x0A \<notin> set m \<and> CHR ''.'' \<notin> set x
          \<and> (line = p @ ''Changing'' @ m @ ''force a '' @ x @ '' created when '' @ q
             \<or> line = p @ ''Changing'' @ m @ ''forces a '' @ x @ '' created when '' @ q)"
  then obtain p m x q where m: "CHR 0x0A \<notin> set m" "CHR ''.'' \<notin> set x"
    and c: "line = p @ (''Changing'' @ m @ ''force a '' @ x @ '' created when '' @ q)
            \<or> line = p @ (''Changing'' @ m @ ''forces a '' @ x @ '' created when '' @ q)"
    by auto
  from m have
    "\<exists>j t. consumes partForceNewReg (length p)
             (''Changing'' @ m @ ''force a '' @ x @ '' created when '' @ q) j t"
    "\<exists>j t. consumes partForceNewReg (length p)
             (''Changing'' @ m @ ''forces a '' @ x @ '' created when '' @ q) j t"
    unfolding partForceNewReg_at by blast+
  with c show "MatchString partForceNewReg line"
    unfolding MatchString_consumes by blast
qed

text \<open>
  C5, as the claim states it, fails. The pattern of the program is
  \<^verbatim>\<open>Changing.*forces? a [^.]*(\.|$)\<close>, not "Changing ... forces ... resource ...
  created": a line about a restart, with neither "resource" nor "created", is reported as
  force-new, and a line that says "forces the resource to be created", with no article
  "a" after the verb, is not.
\<close>

theorem forces_needs_article:
  "isForceNew ''Changing this forces a restart of the service.''
   \<and> \<not> isForceNew ''Changing this forces the resource to be created.''"
  by (simp add: string_defs regex_defs isForceNew_def)

text \<open>
  C5, amended. \<^verbatim>\<open>isForceNew\<close> is true for the line "Changing this forces a new resource
  to be created." and false for "Changing this forces a new resource to be created when X
  is set." and for a line without "Changing". For every line it is true exactly when the
  line holds "Changing", after it with no line feed between them "force a " or "forces a
  ", and has no such occurrence that is followed, with no period between them, by
  " created when "; this is when \<open>ForceNewReg\<close> matches and \<open>partForceNewReg\<close> does not.
\<close>

theorem isForceNew_conditional_exclusion:
  "isForceNew line
     = ((\<exists>p m q. CHR 0x0A \<notin> set m
           \<and> (line = p @ ''Changing'' @ m @ ''force a '' @ q
              \<or> line = p @ ''Changing'' @ m @ ''forces a '' @ q))
        \<and> \<not> (\<exists>p m x q. CHR 0x0A \<notin> set m \<and> CHR ''.'' \<notin> set x
           \<and> (line = p @ ''Changing'' @ m @ ''force a '' @ x @ '' created when '' @ q
              \<or> line = p @ ''Changing'' @ m @ ''forces a '' @ x @ '' created when '' @ q)))
   \<and> isForceNew line = (MatchString ForceNewReg line \<and> \<not> MatchString partForceNewReg line)
   \<and> isForceNew ''Changing this forces a new resource to be created.''
   \<and> \<not> isForceNew ''Changing this forces a new resource to be created when X is set.''
   \<and> \<not> isForceNew ''This forces a new resource to be created.''"
proof -
  have a: "isForceNew line
     = ((\<exists>p m q. CHR 0x0A \<notin> set m
           \<and> (line = p @ ''Changing'' @ m @ ''force a '' @ q
              \<or> line = p @ ''Changing'' @ m @ ''forces a '' @ q))
        \<and> \<not> (\<exists>p m x q. CHR 0x0A \<notin> set m \<and> CHR ''.'' \<notin> set x
           \<and> (line = p @ ''Changing'' @ m @ ''force a '' @ x @ '' created when '' @ q
              \<or> line = p @ ''Changing'' @ m @ ''forces a '' @ x @ '' created when '' @ q)))"
    unfolding isForceNew_def MatchString_ForceNewReg MatchString_partForceNewReg ..
  have b: "isForceNew ''Changing this forces a new resource to be created.''"
    "\<not> isForceNew ''Changing this forces a new resource to be created when X is set.''"
    "\<not> isForceNew ''This forces a new resource to be created.''"
    by (simp_all add: string_defs regex_defs isForceNew_def)
  show ?thesis using a b by (simp add: isForceNew_def)
qed

section \<open>Default values\<close>

text \<open>
  C4, as the claim states it, fails: \<open>DefaultsReg\<close> begins with one of the characters
  \<^verbatim>\<open>. , ? ;\<close>, so on the bare line "Defaults to `false`." nothing matches and the
  result is the empty string, not "false".
\<close>

theorem getDefaultValue_bare_clause:
  "getDefaultValue ''Defaults to `false`.'' \<noteq> ''false''"
  by (simp add: string_defs regex_defs field_defs)

text \<open>
  C4, amended. On a line where the clause follows a sentence boundary, as in
  "* `always_on` - (Optional) Should the Function App be loaded at all times? Defaults to
  `false`.", \<^verbatim>\<open>getDefaultValue\<close> returns "false", the token without its quotes. On every
  line that \<open>DefaultsReg\<close> does not match it returns the empty string, and a field
  extracted from such a line has no default value and no parse error other than the
  three messages about the name and the enum clause.
\<close>

theorem getDefaultValue_after_boundary:
  "getDefaultValue
     ''* `always_on` - (Optional) Should the Function App be loaded at all times? Defaults to `false`.''
     = ''false''
   \<and> (\<forall>line. \<not> MatchString DefaultsReg line \<longrightarrow>
         getDefaultValue line = []
         \<and> (\<forall>lc pos n f. ExtractFieldFromLine lc line pos n = Inr f \<longrightarrow>
               DefaultValue f = None
               \<and> set (ParseErrors f)
                   \<subseteq> {''no field name found'', ''field name is empty'',
                       multipleSectionsError}))"
proof -
  have a: "getDefaultValue
     ''* `always_on` - (Optional) Should the Function App be loaded at all times? Defaults to `false`.''
     = ''false''"
    by (simp add: string_defs regex_defs field_defs)
  show ?thesis
    using a ExtractFieldFromLine_errors getDefaultValue_no_match by auto
qed

theorem getDefaultValue_after_boundary_witness:
  "\<not> MatchString DefaultsReg ''* `name` - (Required) The name of the resource.''
   \<and> getDefaultValue ''* `name` - (Required) The name of the resource.'' = []
   \<and> (\<exists>f. ExtractFieldFromLine caseTable ''* `name` - (Required) The name of the resource.''
              PosArgs 1 = Inr f
           \<and> DefaultValue f = None
           \<and> set (ParseErrors f)
               \<subseteq> {''no field name found'', ''field name is empty'', multipleSectionsError})"
proof -
  have h: "\<not> MatchString DefaultsReg ''* `name` - (Required) The name of the resource.''"
    by (simp add: string_defs regex_defs)
  from getDefaultValue_after_boundary h extract_name_line [of caseTable]
  show ?thesis by blast
qed

section \<open>Enum clauses\<close>

lemma Index_prefix: "HasPrefix l sep \<Longrightarrow> Index l sep = 0"
  by (cases l; cases sep) (auto simp: Index_def)

lemma extract_sku_line:
  "ExtractFieldFromLine lc
     ''* `sku` - (Optional) The SKU. Possible values are `A`, `B`. Must be one of `C`, `D`.''
     PosArgs 3 =
   Inr \<lparr>Name = ''sku'', Line = 3, Position = 2, RequiredStatus = 2, Required = False,
        Optional = True,
        Content =
          ''* `sku` - (Optional) The SKU. Possible values are `A`, `B`. Must be one of `C`, `D`.'',
        DefaultValue = None, ForceNew = False, PossibleValues = [''A'', ''B''],
        GuessEnums = [], EnumStart = 30, EnumEnd = 58,
        ParseErrors = [multipleSectionsError], Block = False, BlockTypeName = []\<rparr>"
  by (simp add: string_defs regex_defs field_defs)

lemma structured_sku_line:
  "StructuredParser_extractPossibleValues lc
     ''* `sku` - (Optional) The SKU. Possible values are `A`, `B`. Must be one of `C`, `D`.''
   = Inr []"
  by (simp add: string_defs regex_defs field_defs StructuredParser_extractPossibleValues_def)

text \<open>
  C3. On the line "* `sku` - (Optional) The SKU. Possible values are `A`, `B`. Must be one
  of `C`, `D`." \<^verbatim>\<open>ExtractFieldFromLine\<close> records the parse error about multiple clauses
  and still keeps the values of the first clause: \<^verbatim>\<open>PossibleValues\<close> is \<open>[A, B]\<close>, not
  empty. The structured parser's copy of the scan returns no value on the same line.
\<close>

theorem multiple_clauses_values_kept:
  "(case ExtractFieldFromLine caseTable
           ''* `sku` - (Optional) The SKU. Possible values are `A`, `B`. Must be one of `C`, `D`.''
           PosArgs 3 of
      Inl e \<Rightarrow> False
    | Inr f \<Rightarrow> PossibleValues f = [''A'', ''B''] \<and> ParseErrors f = [multipleSectionsError])
   \<and> StructuredParser_extractPossibleValues caseTable
        ''* `sku` - (Optional) The SKU. Possible values are `A`, `B`. Must be one of `C`, `D`.''
      = Inr []"
  by (simp add: extract_sku_line structured_sku_line)


text \<open>
  When the clause stands after the name of a field, the values are found and stored in
  the field, without a parse error.
\<close>

lemma version_line_extracted:
  "ExtractFieldFromLine lc
     ''* `version` - (Optional) The version. Possible values are `7.1`, `7.2` and `8.0`.''
     PosArgs 1 =
   Inr \<lparr>Name = ''version'', Line = 1, Position = 2, RequiredStatus = 2, Required = False,
        Optional = True,
        Content =
          ''* `version` - (Optional) The version. Possible values are `7.1`, `7.2` and `8.0`.'',
        DefaultValue = None, ForceNew = False, PossibleValues = [''7.1'', ''7.2'', ''8.0''],
        GuessEnums = [], EnumStart = 38, EnumEnd = 80, ParseErrors = [], Block = False,
        BlockTypeName = []\<rparr>"
  by (simp add: string_defs regex_defs field_defs)








lemma length_clause_step:
  "length (clause ((sep, v) # toks)) = length sep + length v + 2 + length (clause toks)"
  by simp



















text \<open>
  C10, as the claim states it, fails: \<^verbatim>\<open>possibleValueSep\<close> tries the phrases in the order
  of its list and returns the offset of the first phrase of the list that occurs
  anywhere. In "valid value `x`. possible value `y`." the earliest phrase, "valid value",
  starts at offset 0, but "possible value" comes first in the list and is found at offset
  17, so the value \<open>y\<close> is returned.
\<close>

theorem earliest_phrase_at_start_not_decisive:
  "Index (ToLower caseTable ''valid value `x`. possible value `y`.'') ''valid value'' = 0
   \<and> extractPossibleValues caseTable ''valid value `x`. possible value `y`.''
        (newField ''valid value `x`. possible value `y`.'' PosArgs 1)
     = Inr ([''y''],
            (newField ''valid value `x`. possible value `y`.'' PosArgs 1)
              \<lparr>EnumStart := 17, EnumEnd := 35\<rparr>)"
  by (simp add: string_defs regex_defs field_defs)

text \<open>
  C10, amended. For every line on which \<^verbatim>\<open>possibleValueSep\<close> returns 0 (the first
  phrase of the list that occurs in the lowered line occurs at offset 0), and so for
  every line that begins with "possible value" in any case, \<^verbatim>\<open>extractPossibleValues\<close>
  returns no value and leaves the field as it was, whatever quoted tokens follow.
\<close>

theorem phrase_at_offset_zero_ignored:
  "(possibleValueSep lc line = 0 \<longrightarrow> extractPossibleValues lc line field = Inr ([], field))
   \<and> (HasPrefix (ToLower lc line) ''possible value'' \<longrightarrow>
        extractPossibleValues lc line field = Inr ([], field))"
  by (simp add: extractPossibleValues_def possibleValueSep_def enumSeps_def Index_prefix)

theorem phrase_at_offset_zero_ignored_witness:
  "possibleValueSep caseTable ''Possible Values: `a`, `b`.'' = 0
   \<and> HasPrefix (ToLower caseTable ''Possible Values: `a`, `b`.'') ''possible value''
   \<and> extractPossibleValues caseTable ''Possible Values: `a`, `b`.''
        (newField ''Possible Values: `a`, `b`.'' PosArgs 1)
     = Inr ([], newField ''Possible Values: `a`, `b`.'' PosArgs 1)"
proof -
  have h: "possibleValueSep caseTable ''Possible Values: `a`, `b`.'' = 0"
    by (simp add: string_defs field_defs)
  have p: "HasPrefix (ToLower caseTable ''Possible Values: `a`, `b`.'') ''possible value''"
    by (simp add: string_defs)
  from h p phrase_at_offset_zero_ignored
    [of caseTable "''Possible Values: `a`, `b`.''"
        "newField ''Possible Values: `a`, `b`.'' PosArgs 1"]
  show ?thesis by blast
qed

section \<open>Totality of the extraction\<close>

lemma MapRunes_ascii:
  "byte c < 0x80 \<Longrightarrow> MapRunes f (c # bs) = EncodeRune (f (byte c)) @ MapRunes f bs"
  by (simp add: Let_def)

lemma MapRunes_AStroke:
  "MapRunes caseTable (CHR 0xC8 # CHR 0xBA # bs)
     = CHR 0xE2 # CHR 0xB1 # CHR 0xA5 # MapRunes caseTable bs"
  by (simp add: Let_def byte_def cont_def caseTable_def EncodeRune_def char_of_def bit_Suc_0_iff)

lemma strokeLine_lower: "ToLower caseTable strokeLine = strokeLower"
proof -
  have "\<not> list_all (\<lambda>c. byte c < 0x80) strokeLine"
    by (simp add: strokeLine_def byte_def)
  then have "ToLower caseTable strokeLine = MapRunes caseTable strokeLine"
    by (simp add: ToLower_def)
  also have "\<dots> = strokeLower"
    by (simp add: strokeLine_def strokeLower_def MapRunes_ascii MapRunes_AStroke byte_def
        caseTable_def EncodeRune_def char_of_def bit_Suc_0_iff del: MapRunes.simps(2))
  finally show ?thesis .
qed

lemma stroke_lengths: "length strokeLine = 63 \<and> length strokeLower = 80"
  by (simp add: strokeLine_def strokeLower_def)

lemma stroke_fieldReg:
  "FindStringSubmatch fieldReg strokeLine
     = [strokeLine, take 34 (drop 3 strokeLine), [], ''One `b` block as below'']"
  by (simp add: strokeLine_def string_defs regex_defs)

lemma stroke_default: "getDefaultValue strokeLine = []"
  by (simp add: strokeLine_def string_defs regex_defs field_defs)

lemma stroke_guess: "guessBlockProperty strokeLine"
  by (simp add: strokeLine_def string_defs regex_defs field_defs)

lemma stroke_sep: "possibleValueSep caseTable strokeLine = -1"
  by (simp add: possibleValueSep_def strokeLine_lower)
     (simp add: strokeLower_def enumSeps_def string_defs)

lemma stroke_blockType:
  "extractBlockTypeName caseTable strokeLine name = Inl SliceBoundsOutOfRange"
  by (simp add: extractBlockTypeName_def strokeLine_lower)
     (simp add: strokeLower_def strokeLine_def string_defs regex_defs)

lemma no_name_no_panic:
  assumes "FindStringSubmatch fieldReg line = []" and "FirstCodeValue line = []"
  shows "\<exists>f. ExtractFieldFromLine lc line pos n = Inr f \<and> Name f = []
             \<and> ParseErrors f = [''no field name found'']"
  using assms by (simp add: ExtractFieldFromLine_def setName_def Let_def newField_def)

text \<open>
  C9. \<^verbatim>\<open>extractBlockTypeName\<close> finds the offsets of the first back-quoted identifier in
  the lowered line and cuts the original line there. The line \<open>strokeLine\<close> has 63
  bytes and its lowered form has 80; the identifier \<open>b\<close> ends at offset 65 of the lowered
  form, so the slice is out of range and \<^verbatim>\<open>ExtractFieldFromLine\<close> panics.
\<close>

theorem extract_panics_on_stroke_line:
  "ExtractFieldFromLine caseTable strokeLine PosArgs 1 = Inl SliceBoundsOutOfRange"
proof -
  have n: "take 34 (drop 3 strokeLine) \<noteq> []"
    by (simp add: strokeLine_def)
  have g: "0 < Index ''One `b` block as below'' [CHR 0x60]"
    by (simp add: string_defs)
  show ?thesis
    using n g
    by (simp add: ExtractFieldFromLine_def setName_def setEnums_def setBlock_def
        extractPossibleValues_def stroke_sep stroke_fieldReg stroke_default stroke_guess
        stroke_blockType Let_def AddEnum_def SetGuessEnums_def newField_def)
qed

section \<open>Rule S006\<close>

lemma checkMissingInDocLoop_concat:
  "checkMissingInDocLoop idn rt pp objs doc
     = concat (map (\<lambda>(n, p). checkMissingInDocProperty idn rt pp n p doc) objs)"
  by (induction objs) auto

lemma checkMissingInDoc_concat:
  "checkMissingInDoc idn rt pp (Some schema) doc
     = concat (map (\<lambda>(n, p). checkMissingInDocProperty idn rt pp n p doc) (Objects schema))"
  by (cases schema) (simp add: checkMissingInDocLoop_concat)

lemma checkMissingInDoc_member:
  assumes "(name, property) \<in> set (Objects schema)"
  shows "set (checkMissingInDocProperty idn rt pp name property doc)
           \<subseteq> set (checkMissingInDoc idn rt pp (Some schema) doc)"
  using assms by (force simp: checkMissingInDoc_concat)

lemma checkMissingInDoc_step:
  assumes "map_of (Objects schema) name = Some property"
    and "map_of (Objects doc) name = Some docProperty"
    and "\<not> (\<not> pOptional (flds property) \<and> pComputed (flds property))" and "name \<noteq> ''id''"
    and "\<not> pDeprecated (flds property)"
    and "Nested property = Some nested" and "Nested docProperty = Some nd"
    and "0 < length (Objects nested)" and "0 < length (Objects nd)"
  shows "set (checkMissingInDoc idn rt (fullPathOf pp name) (Some nested) nd)
           \<subseteq> set (checkMissingInDoc idn rt pp (Some schema) doc)"
proof -
  have "checkMissingInDocProperty idn rt pp name property doc
          = checkMissingInDoc idn rt (fullPathOf pp name) (Some nested) nd"
    using assms by (cases property) (auto simp: nonEmpty_def)
  moreover have "(name, property) \<in> set (Objects schema)"
    using assms(1) by (rule map_of_SomeD)
  ultimately show ?thesis
    using checkMissingInDoc_member [of name property schema idn rt pp doc] by simp
qed

lemma descend_reaches:
  "descend names pp schema doc = Some (path, schema', doc') \<Longrightarrow>
     path = foldl fullPathOf pp names
     \<and> set (checkMissingInDoc idn rt path (Some schema') doc')
         \<subseteq> set (checkMissingInDoc idn rt pp (Some schema) doc)"
proof (induction names arbitrary: pp schema doc)
  case Nil
  then show ?case by simp
next
  case (Cons name names)
  from Cons.prems obtain property docProperty nested nd where
    a: "map_of (Objects schema) name = Some property"
      "map_of (Objects doc) name = Some docProperty"
      "\<not> (\<not> pOptional (flds property) \<and> pComputed (flds property))" "name \<noteq> ''id''"
      "\<not> pDeprecated (flds property)"
      "Nested property = Some nested" "Nested docProperty = Some nd"
      "0 < length (Objects nested)" "0 < length (Objects nd)"
    and d: "descend names (fullPathOf pp name) nested nd = Some (path, schema', doc')"
    by (auto split: option.splits if_splits)
  from Cons.IH [OF d] checkMissingInDoc_step [OF a, of idn rt pp]
  show ?case by auto
qed

lemma foldl_fullPathOf_nonempty:
  "pp \<noteq> [] \<Longrightarrow> foldl fullPathOf pp names = pp @ concat (map (\<lambda>n. ''.'' @ n) names)"
  by (induction names arbitrary: pp) (simp_all add: fullPathOf_def)

lemma concat_dots:
  "concat (map (\<lambda>n. ''.'' @ n) (names @ [name]))
     = ''.'' @ concat (map (\<lambda>n. n @ ''.'') names) @ name"
  by (induction names) simp_all

lemma foldl_fullPathOf:
  assumes "[] \<notin> set names"
  shows "foldl fullPathOf [] (names @ [name]) = concat (map (\<lambda>n. n @ ''.'') names) @ name"
proof (cases names)
  case Nil
  then show ?thesis by (simp add: fullPathOf_def)
next
  case (Cons n ns)
  with assms have n: "n \<noteq> []" by auto
  have "foldl fullPathOf [] (names @ [name]) = foldl fullPathOf n (ns @ [name])"
    by (simp add: Cons fullPathOf_def)
  also have "\<dots> = n @ concat (map (\<lambda>n. ''.'' @ n) (ns @ [name]))"
    by (rule foldl_fullPathOf_nonempty [OF n])
  also have "\<dots> = concat (map (\<lambda>n. n @ ''.'') names) @ name"
    unfolding concat_dots by (simp add: Cons)
  finally show ?thesis .
qed

lemma missingFromDocs_text:
  "missingFromDocs idn fullPath
     = idn @ '': argument `'' @ fullPath
         @ ''` exists in schema but is missing from documentation at line 0''"
  by (simp add: missingFromDocs_def itoa_def digit_def char_of_def bit_Suc_0_iff)

text \<open>
  C1 as stated fails for a property under a deprecated block: the loop skips the block
  with everything nested in it. Here the schema holds the deprecated block \<open>old\<close> with a
  required \<open>x\<close>; the documentation holds \<open>old\<close> with \<open>y\<close> only; \<open>x\<close> is required, not
  deprecated, not named \<open>id\<close> and absent from the documentation of its level, and nothing
  is reported.
\<close>

theorem nested_in_deprecated_block_skipped:
  "pRequired (zeroFields\<lparr>pName := ''x'', pRequired := True\<rparr>)
   \<and> \<not> pDeprecated (zeroFields\<lparr>pName := ''x'', pRequired := True\<rparr>)
   \<and> ''x'' \<noteq> ''id''
   \<and> map_of [(''y'', Property (zeroFields\<lparr>pName := ''y'', pRequired := True\<rparr>) None None)] ''x''
       = None
   \<and> checkMissingInDoc ''S006'' ''azurerm_example'' []
        (Some (Properties [''old'']
           [(''old'',
             Property (zeroFields\<lparr>pName := ''old'', pOptional := True, pDeprecated := True,
                         pBlock := True\<rparr>)
               (Some (Properties [''x'']
                  [(''x'', Property (zeroFields\<lparr>pName := ''x'', pRequired := True\<rparr>) None None)]))
               None)]))
        (Properties [''old'']
           [(''old'',
             Property (zeroFields\<lparr>pName := ''old'', pOptional := True, pBlock := True\<rparr>)
               (Some (Properties [''y'']
                  [(''y'', Property (zeroFields\<lparr>pName := ''y'', pRequired := True\<rparr>) None None)]))
               None)])
       = []"
  by (simp add: zeroFields_def)

text \<open>
  C1, amended. Take a level that the rule reaches from the root by a chain of names
  (\<open>descend\<close>; the empty chain is the root): every property of the chain is not skipped
  and has nested objects in the schema and in the documentation. A property of the schema
  at that level that is required or optional, not both required and computed, not
  deprecated and not named \<open>id\<close>, and whose name the documentation of that level does not
  hold, gives among the results of \<^verbatim>\<open>checkMissingInDoc\<close> at the root the message
  \<^verbatim>\<open>missing from documentation\<close> with the names of the chain and its own name joined by
  periods (the text of the message is stated for names that are not empty). A property
  that is computed and neither optional nor required, or deprecated,
  or named \<open>id\<close> contributes nothing at any level, nor does anything nested in it; and the
  result at a level is the concatenation of the contributions of its properties.
\<close>

theorem missing_property_reported:
  "(descend names [] rootSchema rootDoc = Some (path, schema, documentation)
      \<and> (name, property) \<in> set (Objects schema)
      \<and> (pRequired (flds property) \<or> pOptional (flds property))
      \<and> \<not> (pRequired (flds property) \<and> pComputed (flds property))
      \<and> \<not> pDeprecated (flds property) \<and> name \<noteq> ''id''
      \<and> map_of (Objects documentation) name = None
    \<longrightarrow> missingFromDocs idn (foldl fullPathOf [] (names @ [name]))
          \<in> set (checkMissingInDoc idn rt [] (Some rootSchema) rootDoc))
   \<and> ([] \<notin> set names
      \<longrightarrow> missingFromDocs idn (foldl fullPathOf [] (names @ [name]))
          = idn @ '': argument `'' @ concat (map (\<lambda>n. n @ ''.'') names) @ name
              @ ''` exists in schema but is missing from documentation at line 0'')
   \<and> ((pComputed (flds property) \<and> \<not> pOptional (flds property)
          \<and> \<not> pRequired (flds property))
        \<or> pDeprecated (flds property) \<or> name = ''id''
      \<longrightarrow> checkMissingInDocProperty idn rt parentPath name property documentation = [])
   \<and> checkMissingInDoc idn rt parentPath (Some schema) documentation
       = concat (map (\<lambda>(n, p). checkMissingInDocProperty idn rt parentPath n p documentation)
                   (Objects schema))"
proof (intro conjI impI)
  assume a: "descend names [] rootSchema rootDoc = Some (path, schema, documentation)
      \<and> (name, property) \<in> set (Objects schema)
      \<and> (pRequired (flds property) \<or> pOptional (flds property))
      \<and> \<not> (pRequired (flds property) \<and> pComputed (flds property))
      \<and> \<not> pDeprecated (flds property) \<and> name \<noteq> ''id''
      \<and> map_of (Objects documentation) name = None"
  then have r: "path = foldl fullPathOf [] names"
    "set (checkMissingInDoc idn rt path (Some schema) documentation)
       \<subseteq> set (checkMissingInDoc idn rt [] (Some rootSchema) rootDoc)"
    using descend_reaches [of names "[]" rootSchema rootDoc path schema documentation idn rt]
    by auto
  from a have "checkMissingInDocProperty idn rt path name property documentation
               = [missingFromDocs idn (fullPathOf path name)]"
    by (cases property) auto
  with a have "missingFromDocs idn (fullPathOf path name)
          \<in> set (checkMissingInDoc idn rt path (Some schema) documentation)"
    by (force simp: checkMissingInDoc_concat)
  with r show "missingFromDocs idn (foldl fullPathOf [] (names @ [name]))
          \<in> set (checkMissingInDoc idn rt [] (Some rootSchema) rootDoc)"
    by auto
next
  assume n: "[] \<notin> set names"
  show "missingFromDocs idn (foldl fullPathOf [] (names @ [name]))
          = idn @ '': argument `'' @ concat (map (\<lambda>n. n @ ''.'') names) @ name
              @ ''` exists in schema but is missing from documentation at line 0''"
    unfolding missingFromDocs_text foldl_fullPathOf [OF n] by simp
next
  assume "(pComputed (flds property) \<and> \<not> pOptional (flds property)
          \<and> \<not> pRequired (flds property))
        \<or> pDeprecated (flds property) \<or> name = ''id''"
  then show "checkMissingInDocProperty idn rt parentPath name property documentation = []"
    by (cases property) auto
next
  show "checkMissingInDoc idn rt parentPath (Some schema) documentation
       = concat (map (\<lambda>(n, p). checkMissingInDocProperty idn rt parentPath n p documentation)
                   (Objects schema))"
    by (rule checkMissingInDoc_concat)
qed

text \<open>
  In the schema \<open>networkSchema\<close> the rule reaches the level \<open>network.subnet\<close>; the optional
  \<open>location\<close>, which the documentation of that level lacks, is reported with the path
  \<open>network.subnet.location\<close>, and the deprecated \<open>old\<close> of the same level contributes
  nothing.
\<close>

theorem missing_property_reported_witness:
  "descend [''network'', ''subnet''] [] networkSchema networkDoc
     = Some (''network.subnet'',
         Properties [''location'', ''old'']
           [(''location'',
             Property (zeroFields\<lparr>pName := ''location'', pOptional := True\<rparr>) None None),
            (''old'',
             Property (zeroFields\<lparr>pName := ''old'', pOptional := True,
                         pDeprecated := True\<rparr>) None None)],
         Properties [''name'']
           [(''name'', Property (zeroFields\<lparr>pName := ''name'', pOptional := True\<rparr>) None None)])
   \<and> [] \<notin> set [''network'', ''subnet'']
   \<and> pOptional (zeroFields\<lparr>pName := ''location'', pOptional := True\<rparr>)
   \<and> \<not> pComputed (zeroFields\<lparr>pName := ''location'', pOptional := True\<rparr>)
   \<and> \<not> pDeprecated (zeroFields\<lparr>pName := ''location'', pOptional := True\<rparr>)
   \<and> ''location'' \<noteq> ''id''
   \<and> ''S006: argument `network.subnet.location` exists in schema but is missing from documentation at line 0''
       \<in> set (checkMissingInDoc ''S006'' ''azurerm_example'' [] (Some networkSchema) networkDoc)
   \<and> pDeprecated (zeroFields\<lparr>pName := ''old'', pOptional := True, pDeprecated := True\<rparr>)
   \<and> checkMissingInDocProperty ''S006'' ''azurerm_example'' ''network.subnet'' ''old''
        (Property (zeroFields\<lparr>pName := ''old'', pOptional := True, pDeprecated := True\<rparr>)
           None None)
        (Properties [''name'']
           [(''name'', Property (zeroFields\<lparr>pName := ''name'', pOptional := True\<rparr>) None None)])
       = []"
proof -
  have d: "descend [''network'', ''subnet''] [] networkSchema networkDoc
     = Some (''network.subnet'',
         Properties [''location'', ''old'']
           [(''location'',
             Property (zeroFields\<lparr>pName := ''location'', pOptional := True\<rparr>) None None),
            (''old'',
             Property (zeroFields\<lparr>pName := ''old'', pOptional := True,
                         pDeprecated := True\<rparr>) None None)],
         Properties [''name'']
           [(''name'', Property (zeroFields\<lparr>pName := ''name'', pOptional := True\<rparr>) None None)])"
    by (simp add: networkSchema_def networkDoc_def zeroFields_def fullPathOf_def)
  have m: "missingFromDocs ''S006'' (foldl fullPathOf [] ([''network'', ''subnet''] @ [''location'']))
    = ''S006: argument `network.subnet.location` exists in schema but is missing from documentation at line 0''"
    by (simp add: missingFromDocs_def fullPathOf_def itoa_def digit_def char_of_def bit_Suc_0_iff)
  have e: "[] \<notin> set [''network'', ''subnet'']" by simp
  from d m e
    missing_property_reported [where names = "[''network'', ''subnet'']"
      and rootSchema = networkSchema and rootDoc = networkDoc and path = "''network.subnet''"
      and schema = "Properties [''location'', ''old'']
           [(''location'',
             Property (zeroFields\<lparr>pName := ''location'', pOptional := True\<rparr>) None None),
            (''old'',
             Property (zeroFields\<lparr>pName := ''old'', pOptional := True,
                         pDeprecated := True\<rparr>) None None)]"
      and documentation = "Properties [''name'']
           [(''name'', Property (zeroFields\<lparr>pName := ''name'', pOptional := True\<rparr>) None None)]"
      and name = "''location''"
      and property = "Property (zeroFields\<lparr>pName := ''location'', pOptional := True\<rparr>) None None"
      and idn = "''S006''" and rt = "''azurerm_example''"]
    missing_property_reported [where name = "''old''"
      and property = "Property (zeroFields\<lparr>pName := ''old'', pOptional := True, pDeprecated := True\<rparr>)
           None None"
      and documentation = "Properties [''name'']
           [(''name'', Property (zeroFields\<lparr>pName := ''name'', pOptional := True\<rparr>) None None)]"
      and idn = "''S006''" and rt = "''azurerm_example''" and parentPath = "''network.subnet''"
      and names = "[]" and rootSchema = networkSchema and rootDoc = networkDoc
      and path = "[]" and schema = networkSchema]
  show ?thesis by (simp add: zeroFields_def)
qed

text \<open>
  C2. On the schema \<open>exampleSchema\<close> (required \<open>name\<close>, required block \<open>identity\<close> with
  \<open>type\<close> nested) and the documentation \<open>exampleDoc\<close> (\<open>name\<close>, and \<open>identity\<close> with
  \<^verbatim>\<open>Block\<close> false and nothing nested), \<^verbatim>\<open>S006.Run\<close> returns exactly one error: the text
  of \<^verbatim>\<open>IdAndName\<close> followed by ": argument `identity` should be declared as a block (e.g.,
  'One or more `identity` block as defined below') at line 4". It is the only result of
  \<^verbatim>\<open>checkMissingInDoc\<close>, and \<^verbatim>\<open>checkMissingInSchema\<close> returns none.
\<close>

theorem example_run:
  "S006_Run lc idn
     \<lparr>ndName = rt, ndType = ResourceTypeResource, ndDocumentExists = True,
      ndSchemaProperties = Some exampleSchema, ndDocumentArguments = Some exampleDoc\<rparr>
     = Inr [idn @ '': argument `identity` should be declared as a block (e.g., ''
              @ [CHR 0x27] @ ''One or more `identity` block as defined below''
              @ [CHR 0x27] @ '') at line 4'']
   \<and> checkMissingInDoc idn rt [] (Some exampleSchema) exampleDoc
     = [idn @ '': argument `identity` should be declared as a block (e.g., ''
              @ [CHR 0x27] @ ''One or more `identity` block as defined below''
              @ [CHR 0x27] @ '') at line 4'']
   \<and> shouldBeBlock idn ''identity'' ''identity'' 4
     = idn @ '': argument `identity` should be declared as a block (e.g., ''
              @ [CHR 0x27] @ ''One or more `identity` block as defined below''
              @ [CHR 0x27] @ '') at line 4''
   \<and> checkMissingInSchema lc idn rt [] (Some exampleDoc) exampleSchema = Inr []"
proof -
  have t: "shouldBeBlock idn ''identity'' ''identity'' 4
     = idn @ '': argument `identity` should be declared as a block (e.g., ''
              @ [CHR 0x27] @ ''One or more `identity` block as defined below''
              @ [CHR 0x27] @ '') at line 4''"
    by (simp add: shouldBeBlock_def itoa_def digit_def char_of_def bit_Suc_0_iff)
  have a: "checkMissingInDoc idn rt [] (Some exampleSchema) exampleDoc
     = [shouldBeBlock idn ''identity'' ''identity'' 4]"
    by (simp add: exampleSchema_def exampleDoc_def zeroFields_def nonEmpty_def fullPathOf_def)
  have b: "checkMissingInSchema lc idn rt [] (Some exampleDoc) exampleSchema = Inr []"
    by (simp add: exampleSchema_def exampleDoc_def zeroFields_def nonEmpty_def fullPathOf_def
        string_defs)
  show ?thesis by (simp add: S006_Run_def a b t)
qed

section \<open>Duplicate names\<close>

text \<open>
  \<^verbatim>\<open>data.Properties.AddProperty\<close> keeps the names and counts the duplicate on the entry
  that exists.
\<close>

lemma Properties_AddProperty_duplicate:
  assumes "map_of (Objects ps) (pName (flds q)) = Some existing" and "pName (flds q) \<noteq> []"
  shows "Properties_AddProperty (Some ps) (Some q)
           = Some (Properties (Names ps)
                     (mapPut (pName (flds q)) (markDuplicate existing) (Objects ps)))"
  using assms by (simp add: Properties_AddProperty_def)

lemma map_of_mapPut: "map_of (mapPut k v kvs) = (map_of kvs)(k \<mapsto> v)"
  by (induction kvs) (auto simp: fun_eq_iff)

lemma length_mapPut:
  "map_of kvs k = Some e \<Longrightarrow> length (mapPut k v kvs) = length kvs"
  by (induction kvs) (auto split: if_splits)

text \<open>
  C7. \<^verbatim>\<open>parser.ParsedProperties.AddProperty\<close>, the function through which
  \<^verbatim>\<open>ParseFields\<close> fills its tree, does not look for the name: on a tree that holds \<open>a\<close>
  (from line 1), adding another \<open>a\<close> (from line 2) appends the name a second time and
  replaces the entry of line 1 by that of line 2, with no count and no parse error.
\<close>

theorem parsed_AddProperty_overwrites:
  "ParsedProperties_AddProperty
     (Some (ParsedProperties [''a'']
              [(''a'', ParsedProperty ((newField ''* `a` - first'' PosArgs 1)\<lparr>Name := ''a''\<rparr>)
                         zeroRest None None)]))
     (Some (ParsedProperty ((newField ''* `a` - second'' PosArgs 2)\<lparr>Name := ''a''\<rparr>)
              zeroRest None None))
   = Some (ParsedProperties [''a'', ''a'']
             [(''a'', ParsedProperty ((newField ''* `a` - second'' PosArgs 2)\<lparr>Name := ''a''\<rparr>)
                        zeroRest None None)])"
  by (simp add: ParsedProperties_AddProperty_def newField_def)

section \<open>Linking and the order of the document\<close>

lemmas extract_defs = getDefaultValue_def isForceNew_def FirstCodeValue_def guessBlockProperty_def
  extractBlockTypeName_def quoteSet_def AddEnum_def SetGuessEnums_def enumSeps_def
  possibleValueSep_def multipleSectionsError_def extractPossibleValues_def newField_def
  setRequired_def setEnums_def setBlock_def setName_def ExtractFieldFromLine_def
  RequiredRequired_def RequiredOptional_def

lemma trims: "TrimSpace headLine = headLine" "TrimSpace typeLine = typeLine"
  "TrimSpace refLine = refLine" "TrimSpace ''---'' = ''---''"
  by (simp_all add: headLine_def typeLine_def refLine_def string_defs)

lemma heads: "IsBlockHead headLine" "\<not> IsBlockHead typeLine" "\<not> IsBlockHead refLine"
  "\<not> IsBlockHead ''---''"
  by (simp_all add: IsBlockHead_def headLine_def typeLine_def refLine_def string_defs regex_defs)

lemma head_names: "ProcessBlockDefinition headLine = Inr ([''identity''], [])"
  by (simp add: ProcessBlockDefinition_def ExtractBlockNames_def headLine_def string_defs
      regex_defs FirstCodeValue_def)

lemma type_field: "ExtractFieldFromLine lc typeLine PosArgs n = Inr (typeField n)"
  by (simp add: typeLine_def typeField_def string_defs regex_defs extract_defs)

lemma ref_field: "ExtractFieldFromLine lc refLine PosArgs n = Inr (refField n)"
  by (simp add: refLine_def refField_def string_defs regex_defs extract_defs)

lemma prefixes:
  "headLine \<noteq> []" "typeLine \<noteq> []" "refLine \<noteq> []"
  "\<not> HasPrefix headLine ''<!--''" "\<not> HasPrefix typeLine ''<!--''" "\<not> HasPrefix refLine ''<!--''"
  "\<not> HasPrefix headLine ''->''" "\<not> HasPrefix typeLine ''->''" "\<not> HasPrefix refLine ''->''"
  "\<not> HasPrefix headLine ''~>''" "\<not> HasPrefix typeLine ''~>''" "\<not> HasPrefix refLine ''~>''"
  "HasPrefix typeLine ''*''" "HasPrefix refLine ''*''"
  "typeLine \<noteq> ''---''" "refLine \<noteq> ''---''"
  by (simp_all add: headLine_def typeLine_def refLine_def)

lemma field_names: "Name (typeField n) = ''type''" "Name (refField n) = ''identity''"
  "Block (refField n)" "\<not> Block (typeField n)"
  by (simp_all add: typeField_def refField_def newField_def)

lemma parse_definition_first:
  "ParseFields lc [headLine, typeLine, ''---'', refLine]
     = Inr (ParsedProperties [''identity'', ''identity''] [(''identity'', refProp 3)])"
  by (simp add: ParseFields_def trims heads head_names type_field ref_field prefixes field_names
      commitBlock_def newBlock_def addToBlock_def ParsedProperties_AddField_def
      ParsedProperties_AddProperty_def NewParsedProperties_def refProp_def defProp_def typeProp_def)

lemma parse_reference_first:
  "ParseFields lc [refLine, ''---'', headLine, typeLine]
     = Inr (ParsedProperties [''identity'', ''identity''] [(''identity'', defProp 2 3)])"
  by (simp add: ParseFields_def trims heads head_names type_field ref_field prefixes field_names
      commitBlock_def newBlock_def addToBlock_def ParsedProperties_AddField_def
      ParsedProperties_AddProperty_def NewParsedProperties_def refProp_def defProp_def typeProp_def)

lemma convert_definition_first:
  "convertParsedPropertiesToProperties
     (ParsedProperties [''identity'', ''identity''] [(''identity'', refProp 3)])
   = Properties [''identity'', ''identity'']
       [(''identity'', Property (convertFields (refField 3) zeroRest) (Some (Properties [] [])) None)]"
  by (simp add: refProp_def NewProperties_def)

lemma convert_reference_first:
  "convertParsedPropertiesToProperties
     (ParsedProperties [''identity'', ''identity''] [(''identity'', defProp 2 3)])
   = Properties [''identity'', ''identity'']
       [(''identity'',
         Property (convertFields
                     ((newField headLine PosArgs 2)
                        \<lparr>Name := ''identity'', Block := True, BlockTypeName := ''identity''\<rparr>)
                     zeroRest)
           (Some (Properties [''type'']
                    [(''type'', Property (convertFields (typeField 3) zeroRest) None None)]))
           None)]"
  by (simp add: defProp_def typeProp_def NewProperties_def)

lemma link_definition_first:
  "BuildBlockStructure 3
     (Some (Properties [''identity'', ''identity'']
       [(''identity'', Property (convertFields (refField 3) zeroRest) (Some (Properties [] [])) None)]))
   = Some (Some (Properties [''identity'', ''identity'']
       [(''identity'', Property (convertFields (refField 3) zeroRest) (Some (Properties [] [])) None)]))"
  by (simp add: BuildBlockStructure_def numeral_3_eq_3 nonEmpty_def linkBlock_def
      convertFields_def refField_def newField_def)

lemma link_reference_first:
  "BuildBlockStructure 3
     (Some (Properties [''identity'', ''identity'']
       [(''identity'',
         Property (convertFields
                     ((newField headLine PosArgs 2)
                        \<lparr>Name := ''identity'', Block := True, BlockTypeName := ''identity''\<rparr>)
                     zeroRest)
           (Some (Properties [''type'']
                    [(''type'', Property (convertFields (typeField 3) zeroRest) None None)]))
           None)]))
   = Some (Some (Properties [''identity'', ''identity'']
       [(''identity'',
         Property (convertFields
                     ((newField headLine PosArgs 2)
                        \<lparr>Name := ''identity'', Block := True, BlockTypeName := ''identity''\<rparr>)
                     zeroRest)
           (Some (Properties [''type'']
                    [(''type'', Property (convertFields (typeField 3) zeroRest) None None)]))
           None)]))"
  by (simp add: BuildBlockStructure_def numeral_3_eq_3 nonEmpty_def linkBlock_def
      convertFields_def typeField_def newField_def)

text \<open>
  C8. Two documents with the same three lines, the section of the block \<open>identity\<close>
  before or after the field that refers to it. Both are parsed, converted and linked
  without a panic and within the bound. With the definition first, the reference, added
  later under the same name, replaces the definition in the parsed tree, no definition is
  left for the linking pass, and \<open>identity\<close> ends with an empty nested tree; with the
  reference first, \<open>identity\<close> ends with the nested tree of the definition, which holds
  \<open>type\<close>. The two final trees differ.
\<close>

theorem linking_depends_on_order:
  "nestedNames (buildAndLink caseTable 3 [headLine, typeLine, ''---'', refLine]) ''identity''
     = Some []
   \<and> nestedNames (buildAndLink caseTable 3 [refLine, ''---'', headLine, typeLine]) ''identity''
     = Some [''type'']
   \<and> buildAndLink caseTable 3 [headLine, typeLine, ''---'', refLine]
     \<noteq> buildAndLink caseTable 3 [refLine, ''---'', headLine, typeLine]"
proof -
  have a: "buildAndLink caseTable 3 [headLine, typeLine, ''---'', refLine]
    = Inr (Some (Some (Properties [''identity'', ''identity'']
       [(''identity'', Property (convertFields (refField 3) zeroRest) (Some (Properties [] [])) None)])))"
    by (simp only: buildAndLink_def parse_definition_first sum.case convert_definition_first
        link_definition_first)
  have b: "buildAndLink caseTable 3 [refLine, ''---'', headLine, typeLine]
    = Inr (Some (Some (Properties [''identity'', ''identity'']
       [(''identity'',
         Property (convertFields
                     ((newField headLine PosArgs 2)
                        \<lparr>Name := ''identity'', Block := True, BlockTypeName := ''identity''\<rparr>)
                     zeroRest)
           (Some (Properties [''type'']
                    [(''type'', Property (convertFields (typeField 3) zeroRest) None None)]))
           None)])))"
    by (simp only: buildAndLink_def parse_reference_first sum.case convert_reference_first
        link_reference_first)
  show ?thesis unfolding a b by (simp add: nestedNames_def)
qed

end
